theory Spec2Isabelle
  imports Main "HOL-Library.Word"
begin

section \<open>Go values: bytes, errors, results and panics\<close>

text \<open>
  A Go byte is an 8-bit word and a byte slice a list of them. An \<open>error\<close> value is
  what \<open>errors.New\<close> builds: it carries its message, which \<open>Error()\<close> returns.

  A Go function declared \<open>(T, error)\<close> returns a pair; \<open>nil\<close> is \<open>None\<close>. The
  functions of this repository are modelled with that pair, exactly as their
  \<open>return\<close> statements are written, so that "no partial object next to an error" is a
  property to prove and not a consequence of the type. A call that can panic returns an
  \<open>outcome\<close>: either \<open>Return v\<close> or \<open>Panic msg\<close>.

  The result of a library call is read by the code only through \<open>err != nil\<close>, the
  value being used when \<open>err\<close> is \<open>nil\<close> and ignored otherwise; such a result is a
  sum, \<open>Inl err\<close> or \<open>Inr value\<close>.
\<close>

type_synonym byte = "8 word"
type_synonym bytes = "byte list"

datatype error = Error string

fun errorString :: "error \<Rightarrow> string" where
  "errorString (Error msg) = msg"

datatype 'a outcome = Return 'a | Panic string

definition bytesOfString :: "string \<Rightarrow> bytes" where
  \<comment> \<open>the conversion \<open>[]byte("...")\<close>\<close>
  "bytesOfString s = map (\<lambda>c. of_nat (of_char c)) s"

section \<open>math/big: the byte encoding of an integer\<close>

text \<open>
  \<open>(*big.Int).Bytes\<close> returns the absolute value as a big-endian byte slice with no
  leading zero byte (the empty slice for 0). \<open>SetBytes\<close> reads a big-endian byte
  slice as an unsigned integer.
\<close>

fun natBytes :: "nat \<Rightarrow> bytes" where
  "natBytes n = (if n = 0 then [] else natBytes (n div 256) @ [of_nat (n mod 256)])"

declare natBytes.simps [simp del]

definition Bytes :: "int \<Rightarrow> bytes" where
  "Bytes x = natBytes (nat \<bar>x\<bar>)"

definition SetBytes :: "bytes \<Rightarrow> int" where
  "SetBytes buf = int (foldl (\<lambda>acc b. acc * 256 + unat b) 0 buf)"

section \<open>crypto/elliptic and crypto/ecdsa: curves and keys\<close>

text \<open>
  \<open>elliptic.Curve\<close> is an interface; the \<open>switch\<close> statements of the signer compare
  a curve with the four values \<open>elliptic.P256()\<close>, \<open>elliptic.P384()\<close>,
  \<open>elliptic.P521()\<close> and \<open>btcec.S256()\<close>. Any other curve value (P-224, a custom
  curve) is \<open>OtherCurve\<close> with its own parameters. Of \<open>CurveParams\<close> the signer reads
  \<open>BitSize\<close>; \<open>N\<close> is the order of the base point, below which \<open>ecdsa.Sign\<close> keeps
  both signature components. The four parameter sets are the constants of the Go
  standard library and of btcec.
\<close>

record CurveParams =
  N :: nat
  BitSize :: nat

datatype curve = P256 | P384 | P521 | S256 | OtherCurve CurveParams

fun Params :: "curve \<Rightarrow> CurveParams" where
  "Params P256 = \<lparr>N = 115792089210356248762697446949407573529996955224135760342422259061068512044369,
                  BitSize = 256\<rparr>"
| "Params P384 = \<lparr>N = 39402006196394479212279040100143613805079739270465446667946905279627659399113263569398956308152294913554433653942643,
                  BitSize = 384\<rparr>"
| "Params P521 = \<lparr>N = 6864797660130609714981900799081393217269435300143305409394463459185543183397655394245057746333217197532963996371363321113864768612440380340372808892707005449,
                  BitSize = 521\<rparr>"
| "Params S256 = \<lparr>N = 115792089237316195423570985008687907852837564279074904382605163141518161494337,
                  BitSize = 256\<rparr>"
| "Params (OtherCurve ps) = ps"

text \<open>
  \<open>ecdsa.PrivateKey\<close> embeds \<open>ecdsa.PublicKey\<close> (curve, X, Y) and adds the secret
  scalar D; \<open>&privKey.PublicKey\<close> is the embedded part.
\<close>

record PublicKey =
  Curve :: curve
  X :: int
  Y :: int

record PrivateKey = PublicKey +
  D :: int

definition PublicKeyOf :: "PrivateKey \<Rightarrow> PublicKey" where
  \<comment> \<open>\<open>&privKey.PublicKey\<close>\<close>
  "PublicKeyOf privKey = \<lparr>Curve = Curve privKey, X = X privKey, Y = Y privKey\<rparr>"

datatype Hash = SHA256 | SHA384 | SHA512

text \<open>
  The library calls of the signer, as parameters. Each stands for one run of the
  library: \<open>GenerateKey\<close> and \<open>ecdsaSign\<close> read \<open>rand.Reader\<close>, and a theorem about
  every \<open>env\<close> is a theorem about every outcome of the random source.
  \<open>hashSum h msg\<close> is \<open>h.New()\<close>, \<open>Write(msg)\<close>, \<open>Sum(nil)\<close>; the three hashes the
  signers use are linked into the program by the imports of the file, and a hash's
  \<open>Write\<close> never fails.
\<close>

record 'jwk env =
  GenerateKey :: "curve \<Rightarrow> error + PrivateKey"
  JWKFromKey :: "PublicKey \<Rightarrow> error + 'jwk"
  Marshal :: "curve \<Rightarrow> int \<Rightarrow> int \<Rightarrow> bytes"
  hashSum :: "Hash \<Rightarrow> bytes \<Rightarrow> bytes"
  ecdsaSign :: "PrivateKey \<Rightarrow> bytes \<Rightarrow> error + (int \<times> int)"

section \<open>The multi-curve ECDSA signer (ecdsa.go)\<close>

definition P256Alg :: string where "P256Alg = ''ES256''"
definition P384Alg :: string where "P384Alg = ''ES384''"
definition P521Alg :: string where "P521Alg = ''ES521''"
definition Secp256Alg :: string where "Secp256Alg = ''ES256K''"

record 'jwk ECDSASigner =
  privateKey :: PrivateKey
  PubKey :: PublicKey
  PubKeyJWK :: 'jwk
  pubKeyBytes :: bytes
  hash :: Hash
  alg :: string

definition newECDSASigner ::
  "'jwk env \<Rightarrow> PrivateKey \<Rightarrow> PublicKey \<Rightarrow> Hash \<Rightarrow> string
    \<Rightarrow> 'jwk ECDSASigner option \<times> error option" where
  "newECDSASigner env privKey pubKey h a =
     (case JWKFromKey env pubKey of
        Inl err \<Rightarrow> (None, Some err)
      | Inr pubJWK \<Rightarrow>
          (Some \<lparr>privateKey = privKey, PubKey = pubKey, PubKeyJWK = pubJWK,
                 pubKeyBytes = Marshal env (Curve pubKey) (X pubKey) (Y pubKey),
                 hash = h, alg = a\<rparr>, None))"

definition NewECDSAP256Signer :: "'jwk env \<Rightarrow> 'jwk ECDSASigner option \<times> error option" where
  "NewECDSAP256Signer env =
     (case GenerateKey env P256 of
        Inl err \<Rightarrow> (None, Some err)
      | Inr privKey \<Rightarrow> newECDSASigner env privKey (PublicKeyOf privKey) SHA256 P256Alg)"

definition GetECDSAP256Signer ::
  "'jwk env \<Rightarrow> PrivateKey \<Rightarrow> 'jwk ECDSASigner option \<times> error option" where
  "GetECDSAP256Signer env privKey =
     newECDSASigner env privKey (PublicKeyOf privKey) SHA256 P256Alg"

definition NewECDSAP384Signer :: "'jwk env \<Rightarrow> 'jwk ECDSASigner option \<times> error option" where
  "NewECDSAP384Signer env =
     (case GenerateKey env P384 of
        Inl err \<Rightarrow> (None, Some err)
      | Inr privKey \<Rightarrow> newECDSASigner env privKey (PublicKeyOf privKey) SHA384 P384Alg)"

definition GetECDSAP384Signer ::
  "'jwk env \<Rightarrow> PrivateKey \<Rightarrow> 'jwk ECDSASigner option \<times> error option" where
  "GetECDSAP384Signer env privKey =
     newECDSASigner env privKey (PublicKeyOf privKey) SHA384 P384Alg"

definition NewECDSAP521Signer :: "'jwk env \<Rightarrow> 'jwk ECDSASigner option \<times> error option" where
  "NewECDSAP521Signer env =
     (case GenerateKey env P521 of
        Inl err \<Rightarrow> (None, Some err)
      | Inr privKey \<Rightarrow> newECDSASigner env privKey (PublicKeyOf privKey) SHA512 P521Alg)"

definition GetECDSAP521Signer ::
  "'jwk env \<Rightarrow> PrivateKey \<Rightarrow> 'jwk ECDSASigner option \<times> error option" where
  "GetECDSAP521Signer env privKey =
     newECDSASigner env privKey (PublicKeyOf privKey) SHA512 P521Alg"

definition NewECDSASecp256k1Signer ::
  "'jwk env \<Rightarrow> 'jwk ECDSASigner option \<times> error option" where
  "NewECDSASecp256k1Signer env =
     (case GenerateKey env S256 of
        Inl err \<Rightarrow> (None, Some err)
      | Inr privKey \<Rightarrow> newECDSASigner env privKey (PublicKeyOf privKey) SHA256 Secp256Alg)"

definition GetECDSASecp256k1Signer ::
  "'jwk env \<Rightarrow> PrivateKey \<Rightarrow> 'jwk ECDSASigner option \<times> error option" where
  "GetECDSASecp256k1Signer env privKey =
     newECDSASigner env privKey (PublicKeyOf privKey) SHA256 Secp256Alg"

fun NewECDSASigner :: "'jwk env \<Rightarrow> curve \<Rightarrow> 'jwk ECDSASigner option \<times> error option" where
  "NewECDSASigner env P256 = NewECDSAP256Signer env"
| "NewECDSASigner env P384 = NewECDSAP384Signer env"
| "NewECDSASigner env P521 = NewECDSAP521Signer env"
| "NewECDSASigner env S256 = NewECDSASecp256k1Signer env"
| "NewECDSASigner env (OtherCurve ps) = (None, Some (Error ''unsupported curve''))"

definition GetECDSASigner ::
  "'jwk env \<Rightarrow> PrivateKey \<Rightarrow> 'jwk ECDSASigner option \<times> error option" where
  "GetECDSASigner env privKey =
     (case Curve privKey of
        P256 \<Rightarrow> GetECDSAP256Signer env privKey
      | P384 \<Rightarrow> GetECDSAP384Signer env privKey
      | P521 \<Rightarrow> GetECDSAP521Signer env privKey
      | S256 \<Rightarrow> GetECDSASecp256k1Signer env privKey
      | OtherCurve ps \<Rightarrow> (None, Some (Error ''unsupported curve'')))"

definition PublicJWK :: "'jwk ECDSASigner \<Rightarrow> 'jwk" where
  "PublicJWK es = PubKeyJWK es"

definition PublicKeyBytes :: "'jwk ECDSASigner \<Rightarrow> bytes" where
  "PublicKeyBytes es = pubKeyBytes es"

definition Alg :: "'jwk ECDSASigner \<Rightarrow> string" where
  "Alg es = alg es"

text \<open>
  The closure \<open>copyPadded\<close> of \<open>signEcdsa\<close>: \<open>dest := make([]byte, size)\<close>, then
  \<open>copy(dest[size-len(source):], source)\<close>. The slice expression panics when
  \<open>size - len(source)\<close> is negative; \<open>copy\<close> writes as many bytes as the shorter of
  its two arguments holds.
\<close>

definition copyPadded :: "bytes \<Rightarrow> nat \<Rightarrow> bytes outcome" where
  "copyPadded source sz =
     (let dest = replicate sz (0 :: byte) in
      if sz < length source then Panic ''slice bounds out of range''
      else
        let lo = sz - length source;
            n = min (length (drop lo dest)) (length source)
        in Return (take lo dest @ take n source @ drop n (drop lo dest)))"

definition keyBytesOf :: "nat \<Rightarrow> nat" where
  \<comment> \<open>\<open>keyBytes := curveBits / 8; if curveBits%8 > 0 { keyBytes++ }\<close>\<close>
  "keyBytesOf curveBits =
     (let keyBytes = curveBits div 8 in
      if curveBits mod 8 > 0 then keyBytes + 1 else keyBytes)"

definition signEcdsa ::
  "'jwk env \<Rightarrow> bytes \<Rightarrow> PrivateKey \<Rightarrow> Hash \<Rightarrow> (bytes option \<times> error option) outcome" where
  "signEcdsa env msg privKey h =
     (let hashed = hashSum env h msg in
      case ecdsaSign env privKey hashed of
        Inl err \<Rightarrow> Return (None, Some err)
      | Inr (r, s) \<Rightarrow>
          let curveBits = BitSize (Params (Curve privKey));
              keyBytes = keyBytesOf curveBits
          in case copyPadded (Bytes r) keyBytes of
               Panic p \<Rightarrow> Panic p
             | Return rb \<Rightarrow>
                 (case copyPadded (Bytes s) keyBytes of
                    Panic p \<Rightarrow> Panic p
                  | Return sb \<Rightarrow> Return (Some (rb @ sb), None)))"

definition Sign :: "'jwk env \<Rightarrow> 'jwk ECDSASigner \<Rightarrow> bytes \<Rightarrow> (bytes option \<times> error option) outcome" where
  "Sign env es msg = signEcdsa env msg (privateKey es) (hash es)"

section \<open>The signature wire format in the words of the specification\<close>

text \<open>
  The specification describes the signature as the two components, each big-endian and
  zero-left-padded to \<open>ceil(curve_bit_size/8)\<close> bytes. These two definitions say that
  in its words; the theorems compare them with what \<open>signEcdsa\<close> computes.
\<close>

definition curveByteLen :: "curve \<Rightarrow> nat" where
  "curveByteLen c = (BitSize (Params c) + 7) div 8"

definition leftPad :: "nat \<Rightarrow> bytes \<Rightarrow> bytes" where
  "leftPad k bs = replicate (k - length bs) 0 @ bs"

section \<open>The ECDSA verifier\<close>

text \<open>
  Modelled from the spec: the verifier that checks an ECDSA signer's output is code of
  this repository that is not among the source files. The specification binds one hash to
  each supported curve (the table of section 4.1) and says that verification reverses the
  padding rule to reconstruct \<open>(r, s)\<close> and then delegates to the curve-verification
  primitive, here the parameter \<open>ecdsaVerify\<close> (crypto/ecdsa's \<open>Verify\<close>). The result
  is \<open>None\<close> for success and an error otherwise. The specification binds no hash to a
  curve outside the table; for a key on such a curve the model reports an error.
\<close>

fun curveHash :: "curve \<Rightarrow> Hash option" where
  "curveHash P256 = Some SHA256"
| "curveHash P384 = Some SHA384"
| "curveHash P521 = Some SHA512"
| "curveHash S256 = Some SHA256"
| "curveHash (OtherCurve ps) = None"

definition Verify ::
  "(PublicKey \<Rightarrow> bytes \<Rightarrow> int \<Rightarrow> int \<Rightarrow> bool) \<Rightarrow> 'jwk env \<Rightarrow> PublicKey \<Rightarrow> bytes \<Rightarrow> bytes
    \<Rightarrow> error option" where
  "Verify ecdsaVerify env pubKey msg sig =
     (case curveHash (Curve pubKey) of
        None \<Rightarrow> Some (Error ''UnsupportedCurve'')
      | Some h \<Rightarrow>
          let keyBytes = curveByteLen (Curve pubKey);
              r = SetBytes (take keyBytes sig);
              s = SetBytes (drop keyBytes sig)
          in if ecdsaVerify pubKey (hashSum env h msg) r s then None
             else Some (Error ''VerificationFailure''))"

section \<open>The opaque-backend adapter\<close>

text \<open>
  Modelled from the spec: \<open>NewCryptoWrapperSigner\<close>, \<open>NewCryptoVerifier\<close> and the
  mock backends of the tests in the suite package are code of this repository that is
  not among the source files; only their tests are. Section 4.2 of the specification
  says that \<open>Sign\<close> forwards the message and returns the backend's signature bytes or
  its error unchanged, and that \<open>Verify\<close> forwards \<open>(publicKey, message, signature)\<close>
  and returns the backend's outcome verbatim. The two mocks are the backends of the
  scenarios of section 8: one returns the configured signature for any input, the other
  fails every verification with the configured error.
\<close>

record 'pk CryptoBackend =
  backendSign :: "bytes \<Rightarrow> bytes option \<times> error option"
  backendVerify :: "'pk \<Rightarrow> bytes \<Rightarrow> bytes \<Rightarrow> error option"

datatype 'pk CryptoSigner = CryptoSigner "'pk CryptoBackend"

datatype 'pk CryptoVerifier = CryptoVerifier "'pk CryptoBackend"

definition NewCryptoWrapperSigner :: "'pk CryptoBackend \<Rightarrow> 'pk CryptoSigner" where
  "NewCryptoWrapperSigner backend = CryptoSigner backend"

definition NewCryptoVerifier :: "'pk CryptoBackend \<Rightarrow> 'pk CryptoVerifier" where
  "NewCryptoVerifier backend = CryptoVerifier backend"

fun CryptoSigner_Sign :: "'pk CryptoSigner \<Rightarrow> bytes \<Rightarrow> bytes option \<times> error option" where
  "CryptoSigner_Sign (CryptoSigner backend) msg = backendSign backend msg"

fun CryptoVerifier_Verify :: "'pk CryptoVerifier \<Rightarrow> 'pk \<Rightarrow> bytes \<Rightarrow> bytes \<Rightarrow> error option" where
  "CryptoVerifier_Verify (CryptoVerifier backend) pubKey msg sig =
     backendVerify backend pubKey msg sig"

definition MockFixedKeyCrypto :: "bytes \<Rightarrow> 'pk CryptoBackend" where
  "MockFixedKeyCrypto SignVal =
     \<lparr>backendSign = (\<lambda>msg. (Some SignVal, None)),
      backendVerify = (\<lambda>pubKey msg sig. None)\<rparr>"

definition MockKMSCrypto :: "error option \<Rightarrow> 'pk CryptoBackend" where
  "MockKMSCrypto VerifyErr =
     \<lparr>backendSign = (\<lambda>msg. (Some [], None)),
      backendVerify = (\<lambda>pubKey msg sig. VerifyErr)\<rparr>"

section \<open>The Public-Key Resolver of the two-proof fixture (part_001)\<close>

text \<open>
  \<open>verifier.PublicKey\<close> carries a type tag, raw key bytes and a JWK. The closure
  returned by \<open>createVCWithTwoLinkedDataProofs\<close> switches on \<open>keyID\<close> alone: the key
  of the first signer for \<open>"#key1"\<close>, that of the second for \<open>"#key2"\<close>, and
  \<open>panic("invalid keyID")\<close> for anything else. Its two parameters here are the JWKs
  that \<open>signer1.PublicJWK()\<close> and \<open>signer2.PublicJWK()\<close> return.
\<close>

record 'jwk VerifierPublicKey =
  Type :: string
  Value :: bytes
  JWK :: "'jwk option"

type_synonym 'pk PublicKeyFetcher = "string \<Rightarrow> string \<Rightarrow> ('pk option \<times> error option) outcome"

definition twoProofsFetcher :: "'jwk \<Rightarrow> 'jwk \<Rightarrow> 'jwk VerifierPublicKey PublicKeyFetcher" where
  "twoProofsFetcher signer1JWK signer2JWK issuerID keyID =
     (if keyID = ''#key1'' then
        Return (Some \<lparr>Type = ''Ed25519Signature2018'', Value = [], JWK = Some signer1JWK\<rparr>, None)
      else if keyID = ''#key2'' then
        Return (Some \<lparr>Type = ''Ed25519Signature2018'', Value = [], JWK = Some signer2JWK\<rparr>, None)
      else Panic ''invalid keyID'')"

section \<open>The Linked-Data-Proof manager\<close>

text \<open>
  Modelled from the spec: \<open>AddLinkedDataProof\<close> and the proof verification it pairs
  with are code of this repository that is not among the source files; the fixtures of
  part_001 only call them. The definitions follow sections 3, 4.3 and 6 of the
  specification.

  A proof is \<open>{type, created, verificationMethod, proofPurpose, signatureValue}\<close>; a
  document owns an ordered sequence of proofs next to its content, which this subsystem
  does not inspect. The canonicalizer is the external collaborator
  \<open>(document, excludedProofIndex) -> canonical bytes | error\<close>. A signature suite
  provides signing and the encoding of step 3; the verifier is the one bound to the
  proof's declared type.
\<close>

record Proof =
  proofType :: string
  created :: string
  verificationMethod :: string
  proofPurpose :: string
  signatureValue :: bytes

record 'c Document =
  content :: 'c
  proofs :: "Proof list"

datatype SigRepr = SignatureProofValue | SignatureJWS



type_synonym 'c Canonicalizer = "'c Document \<Rightarrow> nat \<Rightarrow> error + bytes"


text \<open>
  Modelled from the spec: step 1 of \<open>VerifyProofs\<close> splits the verification method on
  \<open>#\<close>. \<open>splitOn\<close> cuts a string at every occurrence of the separator. An identifier
  of the shape \<open>issuerIdentity + "#" + keyFragment\<close> gives exactly two parts; the
  specification does not say what happens to any other identifier, and the model
  resolves no key for it.
\<close>

fun splitOn :: "char \<Rightarrow> string \<Rightarrow> string list" where
  "splitOn sep [] = [[]]"
| "splitOn sep (c # cs) =
     (if c = sep then [] # splitOn sep cs
      else (case splitOn sep cs of
              [] \<Rightarrow> [[c]]
            | w # ws \<Rightarrow> (c # w) # ws))"

definition parseVerificationMethod :: "string \<Rightarrow> (string \<times> string) option" where
  "parseVerificationMethod vm =
     (case splitOn (CHR ''#'') vm of
        [issuerIdentity, keyFragment] \<Rightarrow> Some (issuerIdentity, keyFragment)
      | _ \<Rightarrow> None)"

text \<open>
  Modelled from the spec: step 2, the call
  \<open>fetcher(issuerIdentity, "#"+keyFragment)\<close>. The fetcher has the type of the
  fixture's closure, so it may panic; a panic is not caught.
\<close>

definition resolveKey :: "'pk PublicKeyFetcher \<Rightarrow> string \<Rightarrow> ('pk option \<times> error option) outcome" where
  "resolveKey fetcher vm =
     (case parseVerificationMethod vm of
        None \<Rightarrow> Return (None, Some (Error ''KeyResolutionFailure''))
      | Some (issuerIdentity, keyFragment) \<Rightarrow> fetcher issuerIdentity (''#'' @ keyFragment))"

datatype proofResult = ProofValid | KeyResolutionFailure | VerificationFailure

text \<open>
  Modelled from the spec: steps 1 to 4 for the proof at index \<open>i\<close>, and the loop over
  the document's sequence that reports one result per proof. The loop runs in
  attachment order and a panic of the fetcher ends it, as a Go panic ends the call.
  A fetcher that returns an error, or no key and no error, fails the resolution of that
  proof; the specification names no outcome for a canonicalizer error, and the model
  counts it as a failed verification of that proof.
\<close>

definition verifyProof ::
  "'c Canonicalizer \<Rightarrow> 'pk PublicKeyFetcher \<Rightarrow> (string \<Rightarrow> 'pk \<Rightarrow> bytes \<Rightarrow> bytes \<Rightarrow> error option)
    \<Rightarrow> 'c Document \<Rightarrow> nat \<Rightarrow> proofResult outcome" where
  "verifyProof canonicalize fetcher verifierFor doc i =
     (let p = proofs doc ! i in
      case resolveKey fetcher (verificationMethod p) of
        Panic m \<Rightarrow> Panic m
      | Return (k, Some err) \<Rightarrow> Return KeyResolutionFailure
      | Return (None, None) \<Rightarrow> Return KeyResolutionFailure
      | Return (Some pubKey, None) \<Rightarrow>
          (case canonicalize doc i of
             Inl err \<Rightarrow> Return VerificationFailure
           | Inr message \<Rightarrow>
               (case verifierFor (proofType p) pubKey message (signatureValue p) of
                  None \<Rightarrow> Return ProofValid
                | Some err \<Rightarrow> Return VerificationFailure)))"

fun verifyFrom ::
  "'c Canonicalizer \<Rightarrow> 'pk PublicKeyFetcher \<Rightarrow> (string \<Rightarrow> 'pk \<Rightarrow> bytes \<Rightarrow> bytes \<Rightarrow> error option)
    \<Rightarrow> 'c Document \<Rightarrow> nat list \<Rightarrow> proofResult list outcome" where
  "verifyFrom canonicalize fetcher verifierFor doc [] = Return []"
| "verifyFrom canonicalize fetcher verifierFor doc (i # is) =
     (case verifyProof canonicalize fetcher verifierFor doc i of
        Panic m \<Rightarrow> Panic m
      | Return res \<Rightarrow>
          (case verifyFrom canonicalize fetcher verifierFor doc is of
             Panic m \<Rightarrow> Panic m
           | Return rest \<Rightarrow> Return (res # rest)))"

definition VerifyProofs ::
  "'c Canonicalizer \<Rightarrow> 'pk PublicKeyFetcher \<Rightarrow> (string \<Rightarrow> 'pk \<Rightarrow> bytes \<Rightarrow> bytes \<Rightarrow> error option)
    \<Rightarrow> 'c Document \<Rightarrow> proofResult list outcome" where
  "VerifyProofs canonicalize fetcher verifierFor doc =
     verifyFrom canonicalize fetcher verifierFor doc [0..<length (proofs doc)]"


section \<open>The interop time wrapper (signer_interop.go)\<close>

text \<open>
  \<open>wrapTime\<close> formats the time with the layout \<open>time.RFC3339\<close> and hands the string
  to \<open>ParseTimeWrapper\<close> of the did-go library, whose result is a pair; the code binds
  the error to the blank identifier and returns the first component. Both library calls
  are parameters.
\<close>

definition wrapTime ::
  "('t \<Rightarrow> string) \<Rightarrow> (string \<Rightarrow> 'tw option \<times> error option) \<Rightarrow> 't \<Rightarrow> 'tw option" where
  "wrapTime formatRFC3339 ParseTimeWrapper t =
     (case ParseTimeWrapper (formatRFC3339 t) of (tw, err) \<Rightarrow> tw)"

text \<open>
  A stand-in for the two library calls on UTC times with whole seconds, to run
  \<open>wrapTime\<close> on a concrete time. Go's \<open>Format\<close> writes the year with at least four
  digits (\<open>appendInt(b, year, 4)\<close>: a sign for a negative number, then the digits
  zero-padded to the width) and so writes five digits for the year 10000; \<open>Parse\<close>
  reads exactly four digits for the year and then expects the \<open>-\<close>. The parser below
  accepts the strings \<open>YYYY-MM-DDThh:mm:ssZ\<close> with the fields in range.
\<close>

record Time =
  year :: int
  month :: nat
  day :: nat
  hour :: nat
  minute :: nat
  second :: nat

fun digitsOf :: "nat \<Rightarrow> string" where
  "digitsOf n =
     (if n < 10 then [''0123456789'' ! n]
      else digitsOf (n div 10) @ [''0123456789'' ! (n mod 10)])"

declare digitsOf.simps [simp del]

definition appendInt :: "int \<Rightarrow> nat \<Rightarrow> string" where
  "appendInt x width =
     (let ds = digitsOf (nat \<bar>x\<bar>)
      in (if x < 0 then ''-'' else []) @ replicate (width - length ds) (CHR ''0'') @ ds)"

definition goFormatRFC3339 :: "Time \<Rightarrow> string" where
  "goFormatRFC3339 t =
     appendInt (year t) 4 @ ''-'' @ appendInt (int (month t)) 2 @ ''-''
       @ appendInt (int (day t)) 2 @ ''T'' @ appendInt (int (hour t)) 2 @ '':''
       @ appendInt (int (minute t)) 2 @ '':'' @ appendInt (int (second t)) 2 @ ''Z''"

definition isDigit :: "char \<Rightarrow> bool" where
  "isDigit c = (48 \<le> (of_char c :: nat) \<and> (of_char c :: nat) \<le> 57)"

definition atoi :: "string \<Rightarrow> nat" where
  "atoi ds = foldl (\<lambda>acc c. acc * 10 + ((of_char c :: nat) - 48)) 0 ds"

definition goParseTimeWrapper :: "string \<Rightarrow> (Time \<times> string) option \<times> error option" where
  "goParseTimeWrapper timeStr =
     (let t = \<lparr>year = int (atoi (take 4 timeStr)),
               month = atoi (take 2 (drop 5 timeStr)),
               day = atoi (take 2 (drop 8 timeStr)),
               hour = atoi (take 2 (drop 11 timeStr)),
               minute = atoi (take 2 (drop 14 timeStr)),
               second = atoi (take 2 (drop 17 timeStr))\<rparr>
      in if length timeStr = 20
            \<and> list_all (\<lambda>i. isDigit (timeStr ! i)) [0, 1, 2, 3, 5, 6, 8, 9, 11, 12, 14, 15, 17, 18]
            \<and> timeStr ! 4 = CHR ''-'' \<and> timeStr ! 7 = CHR ''-'' \<and> timeStr ! 10 = CHR ''T''
            \<and> timeStr ! 13 = CHR '':'' \<and> timeStr ! 16 = CHR '':'' \<and> timeStr ! 19 = CHR ''Z''
            \<and> 1 \<le> month t \<and> month t \<le> 12 \<and> 1 \<le> day t \<and> day t \<le> 31
            \<and> hour t < 24 \<and> minute t < 60 \<and> second t < 60
         then (Some (t, timeStr), None)
         else (None, Some (Error ''parsing time: cannot parse as RFC3339'')))"

section \<open>A concrete environment, to run the definitions\<close>

text \<open>
  A small library environment for the concrete runs: the hash is the identity, a
  signature is \<open>(len(hashed) + 1, X + 4)\<close> and the matching check accepts exactly that
  pair. It signs and verifies consistently, which is all the runs need.
\<close>

definition demoKey :: "curve \<Rightarrow> PrivateKey" where
  "demoKey c = \<lparr>Curve = c, X = 1, Y = 2, D = 3\<rparr>"

definition demoEnv :: "nat env" where
  "demoEnv =
     \<lparr>GenerateKey = (\<lambda>c. Inr (demoKey c)),
      JWKFromKey = (\<lambda>pubKey. Inr 0),
      Marshal = (\<lambda>c x y. []),
      hashSum = (\<lambda>h msg. msg),
      ecdsaSign = (\<lambda>privKey hashed. Inr (int (length hashed) + 1, X privKey + 4))\<rparr>"

definition demoVerify :: "PublicKey \<Rightarrow> bytes \<Rightarrow> int \<Rightarrow> int \<Rightarrow> bool" where
  "demoVerify pubKey hashed r s = (r = int (length hashed) + 1 \<and> s = X pubKey + 4)"

definition failingEnv :: "nat env" where
  \<comment> \<open>every fallible library call fails: key generation, JWK export and signing\<close>
  "failingEnv =
     \<lparr>GenerateKey = (\<lambda>c. Inl (Error ''entropy'')),
      JWKFromKey = (\<lambda>pubKey. Inl (Error ''jwk'')),
      Marshal = (\<lambda>c x y. []),
      hashSum = (\<lambda>h msg. msg),
      ecdsaSign = (\<lambda>privKey hashed. Inl (Error ''entropy''))\<rparr>"

definition demoSigner :: "curve \<Rightarrow> Hash \<Rightarrow> string \<Rightarrow> nat ECDSASigner" where
  "demoSigner c h a =
     \<lparr>privateKey = demoKey c, PubKey = PublicKeyOf (demoKey c), PubKeyJWK = 0,
      pubKeyBytes = [], hash = h, alg = a\<rparr>"

text \<open>
  A small setting for the proof manager: the canonical bytes are the content of the
  document (every proof is left out, as a canonicalizer that strips the proofs does), a
  signature is the key byte followed by the message, and the verifier accepts exactly
  that. \<open>demoFetcher\<close> is a resolver that answers an unknown key identifier with an
  error.
\<close>

definition demoCanon :: "string Canonicalizer" where
  "demoCanon doc i = Inr (bytesOfString (content doc))"


definition demoVerifier :: "string \<Rightarrow> byte \<Rightarrow> bytes \<Rightarrow> bytes \<Rightarrow> error option" where
  "demoVerifier sigType pubKey message sig =
     (if sig = pubKey # message then None else Some (Error ''invalid signature''))"

definition demoFetcher :: "byte PublicKeyFetcher" where
  "demoFetcher issuerID keyID =
     (if keyID = ''#key1'' then Return (Some 1, None)
      else if keyID = ''#key2'' then Return (Some 2, None)
      else Return (None, Some (Error ''unknown key'')))"


definition demoProof :: "string \<Rightarrow> bytes \<Rightarrow> Proof" where
  "demoProof vm sig =
     \<lparr>proofType = ''Ed25519Signature2018'', created = ''2026-01-01T00:00:00Z'',
      verificationMethod = vm, proofPurpose = ''assertionMethod'', signatureValue = sig\<rparr>"

definition demoDoc :: "Proof list \<Rightarrow> string Document" where
  "demoDoc ps = \<lparr>content = ''vc'', proofs = ps\<rparr>"





section \<open>Facts about the byte encoding\<close>

lemma natBytes_zero: "natBytes 0 = []"
  by (simp add: natBytes.simps)

lemma natBytes_step: "0 < n \<Longrightarrow> natBytes n = natBytes (n div 256) @ [of_nat (n mod 256)]"
  by (subst natBytes.simps) simp

lemma length_natBytes_le: "n < 256 ^ k \<Longrightarrow> length (natBytes n) \<le> k"
proof (induction n arbitrary: k rule: natBytes.induct)
  case (1 n)
  show ?case
  proof (cases "n = 0")
    case True
    then show ?thesis by (simp add: natBytes_zero)
  next
    case False
    with "1.prems" obtain j where k: "k = Suc j"
      by (cases k) auto
    from "1.prems" k have "n div 256 < 256 ^ j"
      by (simp add: less_mult_imp_div_less mult.commute)
    with "1.IH" False have "length (natBytes (n div 256)) \<le> j"
      by blast
    with False k show ?thesis
      by (simp add: natBytes_step)
  qed
qed

lemma natBytes_lt: "n < 256 ^ length (natBytes n)"
proof (induction n rule: natBytes.induct)
  case (1 n)
  show ?case
  proof (cases "n = 0")
    case True
    then show ?thesis by simp
  next
    case False
    with "1.IH" have ih: "n div 256 < 256 ^ length (natBytes (n div 256))"
      by blast
    have "n = 256 * (n div 256) + n mod 256"
      by simp
    also have "\<dots> < 256 * (n div 256) + 256"
      by simp
    also have "\<dots> = 256 * Suc (n div 256)"
      by simp
    also from ih have "\<dots> \<le> 256 * 256 ^ length (natBytes (n div 256))"
      by (simp add: Suc_leI)
    finally show ?thesis
      using False by (simp add: natBytes_step)
  qed
qed

lemma length_natBytes_iff: "length (natBytes n) \<le> k \<longleftrightarrow> n < 256 ^ k"
proof
  assume le: "length (natBytes n) \<le> k"
  have "n < 256 ^ length (natBytes n)"
    by (rule natBytes_lt)
  also from le have "(256::nat) ^ length (natBytes n) \<le> 256 ^ k"
    by (simp add: power_increasing)
  finally show "n < 256 ^ k" .
next
  assume "n < 256 ^ k"
  then show "length (natBytes n) \<le> k"
    by (rule length_natBytes_le)
qed
lemma foldl_be_zeros:
  "foldl (\<lambda>acc (b::byte). acc * 256 + unat b) 0 (replicate k 0) = 0"
  by (induction k) simp_all

lemma foldl_be_natBytes: "foldl (\<lambda>acc (b::byte). acc * 256 + unat b) 0 (natBytes n) = n"
proof (induction n rule: natBytes.induct)
  case (1 n)
  show ?case
  proof (cases "n = 0")
    case True
    then show ?thesis by (simp add: natBytes_zero)
  next
    case False
    with "1.IH" have "foldl (\<lambda>acc (b::byte). acc * 256 + unat b) 0 (natBytes (n div 256)) = n div 256"
      by blast
    moreover have "unat (of_nat (n mod 256) :: byte) = n mod 256"
      by (simp add: unat_of_nat)
    ultimately show ?thesis
      using False by (simp add: natBytes_step)
  qed
qed

lemma SetBytes_leftPad: "SetBytes (leftPad k bs) = SetBytes bs"
  by (simp add: SetBytes_def leftPad_def foldl_be_zeros)

lemma SetBytes_Bytes: "SetBytes (Bytes x) = \<bar>x\<bar>"
  by (simp add: SetBytes_def Bytes_def foldl_be_natBytes)

lemma length_Bytes_le: "length (Bytes x) \<le> k \<longleftrightarrow> \<bar>x\<bar> < 256 ^ k"
proof -
  have "length (Bytes x) \<le> k \<longleftrightarrow> nat \<bar>x\<bar> < 256 ^ k"
    by (simp add: Bytes_def length_natBytes_iff)
  also have "\<dots> \<longleftrightarrow> \<bar>x\<bar> < int (256 ^ k)"
    by linarith
  finally show ?thesis by simp
qed

lemma length_leftPad: "length bs \<le> k \<Longrightarrow> length (leftPad k bs) = k"
  by (simp add: leftPad_def)

lemma pow2_le_pow256_ceil: "(2::nat) ^ bits \<le> 256 ^ ((bits + 7) div 8)"
proof -
  have "(256::nat) ^ ((bits + 7) div 8) = 2 ^ (8 * ((bits + 7) div 8))"
    by (simp add: power_mult)
  moreover have "bits \<le> 8 * ((bits + 7) div 8)"
    by presburger
  ultimately show ?thesis
    by (simp add: power_increasing)
qed

lemma curveByteLen_supported:
  "curveByteLen P256 = 32" "curveByteLen P384 = 48" "curveByteLen P521 = 66"
  "curveByteLen S256 = 32"
  by (simp_all add: curveByteLen_def)

section \<open>Facts about \<open>copyPadded\<close> and \<open>signEcdsa\<close>\<close>

lemma keyBytesOf_ceil: "keyBytesOf bits = (bits + 7) div 8"
  unfolding keyBytesOf_def Let_def by presburger

lemma keyBytesOf_curve: "keyBytesOf (BitSize (Params c)) = curveByteLen c"
  by (simp add: keyBytesOf_ceil curveByteLen_def)

lemma copyPadded_fits:
  "length source \<le> sz \<Longrightarrow> copyPadded source sz = Return (leftPad sz source)"
  by (simp add: copyPadded_def leftPad_def Let_def)

lemma copyPadded_panics:
  "sz < length source \<Longrightarrow> copyPadded source sz = Panic ''slice bounds out of range''"
  by (simp add: copyPadded_def Let_def)

lemma copyPadded_Return:
  "copyPadded source sz = Return out \<Longrightarrow> length source \<le> sz \<and> out = leftPad sz source"
  by (cases "sz < length source") (simp_all add: copyPadded_panics copyPadded_fits)

lemma signEcdsa_error:
  "ecdsaSign env privKey (hashSum env h msg) = Inl err
    \<Longrightarrow> signEcdsa env msg privKey h = Return (None, Some err)"
  by (simp add: signEcdsa_def)

lemma signEcdsa_success:
  assumes "signEcdsa env msg privKey h = Return (Some sig, e)"
  shows "\<exists>r s. ecdsaSign env privKey (hashSum env h msg) = Inr (r, s)
           \<and> length (Bytes r) \<le> curveByteLen (Curve privKey)
           \<and> length (Bytes s) \<le> curveByteLen (Curve privKey)
           \<and> sig = leftPad (curveByteLen (Curve privKey)) (Bytes r)
                  @ leftPad (curveByteLen (Curve privKey)) (Bytes s)
           \<and> e = None"
proof (cases "ecdsaSign env privKey (hashSum env h msg)")
  case (Inl err)
  with assms show ?thesis
    by (simp add: signEcdsa_def)
next
  case (Inr rs)
  obtain r s where rs: "rs = (r, s)"
    by (cases rs)
  let ?kb = "curveByteLen (Curve privKey)"
  from assms Inr rs obtain rb sb where
    rb: "copyPadded (Bytes r) ?kb = Return rb" and
    sb: "copyPadded (Bytes s) ?kb = Return sb" and
    out: "sig = rb @ sb" "e = None"
    by (auto simp: signEcdsa_def keyBytesOf_curve Let_def split: outcome.splits)
  from rb sb out Inr rs show ?thesis
    by (auto dest!: copyPadded_Return)
qed

lemma demo_sign:
  "Sign demoEnv (demoSigner P521 SHA512 P521Alg) [1, 2, 3]
     = Return (Some (replicate 65 0 @ [4] @ replicate 65 0 @ [5]), None)"
  by (simp add: Sign_def signEcdsa_def demoEnv_def demoSigner_def demoKey_def keyBytesOf_def
      copyPadded_def Bytes_def natBytes_step natBytes_zero Let_def)

section \<open>The claims\<close>

text \<open>
  Claim C1. Whenever \<open>Sign\<close> returns a signature, for any signer and any message, that
  signature is the concatenation of the two components \<open>(r, s)\<close> that \<open>ecdsa.Sign\<close>
  produced for the digest of the message, each written big-endian and zero-left-padded
  to \<open>ceil(curve_bit_size/8)\<close> bytes: each half has that length, reading a half back
  big-endian gives the component, no error comes with the signature, and the signature
  is \<open>2 * ceil(curve_bit_size/8)\<close> bytes long, which is 64 for P-256, 96 for P-384, 132
  for P-521 and 64 for secp256k1. The encoding is not ASN.1/DER: it has no tag or length
  bytes, only the two padded numbers.
\<close>

theorem C1_sign_fixed_width:
  assumes "Sign env es msg = Return (Some sig, e)"
  shows "\<exists>r s. ecdsaSign env (privateKey es) (hashSum env (hash es) msg) = Inr (r, s)
           \<and> sig = leftPad (curveByteLen (Curve (privateKey es))) (Bytes r)
                  @ leftPad (curveByteLen (Curve (privateKey es))) (Bytes s)
           \<and> length (leftPad (curveByteLen (Curve (privateKey es))) (Bytes r))
                = curveByteLen (Curve (privateKey es))
           \<and> length (leftPad (curveByteLen (Curve (privateKey es))) (Bytes s))
                = curveByteLen (Curve (privateKey es))
           \<and> SetBytes (take (curveByteLen (Curve (privateKey es))) sig) = \<bar>r\<bar>
           \<and> SetBytes (drop (curveByteLen (Curve (privateKey es))) sig) = \<bar>s\<bar>
           \<and> e = None
           \<and> length sig = 2 * curveByteLen (Curve (privateKey es))
           \<and> (Curve (privateKey es) = P256 \<longrightarrow> length sig = 64)
           \<and> (Curve (privateKey es) = P384 \<longrightarrow> length sig = 96)
           \<and> (Curve (privateKey es) = P521 \<longrightarrow> length sig = 132)
           \<and> (Curve (privateKey es) = S256 \<longrightarrow> length sig = 64)"
proof -
  let ?kb = "curveByteLen (Curve (privateKey es))"
  from assms have "signEcdsa env msg (privateKey es) (hash es) = Return (Some sig, e)"
    by (simp add: Sign_def)
  from signEcdsa_success [OF this] obtain r s where
    prim: "ecdsaSign env (privateKey es) (hashSum env (hash es) msg) = Inr (r, s)" and
    lr: "length (Bytes r) \<le> ?kb" and ls: "length (Bytes s) \<le> ?kb" and
    sig: "sig = leftPad ?kb (Bytes r) @ leftPad ?kb (Bytes s)" and e: "e = None"
    by blast
  have plr: "length (leftPad ?kb (Bytes r)) = ?kb" and pls: "length (leftPad ?kb (Bytes s)) = ?kb"
    using lr ls by (simp_all add: length_leftPad)
  have dr: "SetBytes (take ?kb sig) = \<bar>r\<bar>"
    using plr by (simp add: sig SetBytes_leftPad SetBytes_Bytes)
  have ds: "SetBytes (drop ?kb sig) = \<bar>s\<bar>"
    using plr by (simp add: sig SetBytes_leftPad SetBytes_Bytes)
  have len: "length sig = 2 * ?kb"
    using plr pls by (simp add: sig)
  have tab: "(Curve (privateKey es) = P256 \<longrightarrow> length sig = 64)
           \<and> (Curve (privateKey es) = P384 \<longrightarrow> length sig = 96)
           \<and> (Curve (privateKey es) = P521 \<longrightarrow> length sig = 132)
           \<and> (Curve (privateKey es) = S256 \<longrightarrow> length sig = 64)"
    using len by (auto simp: curveByteLen_supported)
  from prim sig plr pls dr ds e len tab show ?thesis
    by blast
qed

theorem C1_sign_fixed_width_witness:
  "Sign demoEnv (demoSigner P521 SHA512 P521Alg) [1, 2, 3]
     = Return (Some (replicate 65 0 @ [4] @ replicate 65 0 @ [5]), None)
   \<and> length (replicate 65 (0::byte) @ [4] @ replicate 65 0 @ [5]) = 132"
  using C1_sign_fixed_width [OF demo_sign] by (simp add: demo_sign)

text \<open>
  Claim C10. \<open>signEcdsa\<close> does not panic when the signature components are reduced
  modulo the order of the key's curve and that order fits the curve's bit size (as it
  does for a key on its declared curve): the minimal encodings of \<open>r\<close> and \<open>s\<close> are
  then at most \<open>keyBytes\<close> long, both calls of \<open>copyPadded\<close> return (the slice index
  \<open>size - len(source)\<close> is not negative), and \<open>signEcdsa\<close> returns either the error of
  \<open>ecdsa.Sign\<close> with no signature, or a signature of \<open>2 * keyBytes\<close> bytes with no
  error.
\<close>

theorem C10_signEcdsa_total:
  assumes order: "N (Params (Curve privKey)) \<le> 2 ^ BitSize (Params (Curve privKey))"
      and reduced: "\<And>r s. ecdsaSign env privKey (hashSum env h msg) = Inr (r, s)
                      \<Longrightarrow> \<bar>r\<bar> < int (N (Params (Curve privKey)))
                          \<and> \<bar>s\<bar> < int (N (Params (Curve privKey)))"
  shows "(\<exists>err. ecdsaSign env privKey (hashSum env h msg) = Inl err
            \<and> signEcdsa env msg privKey h = Return (None, Some err))
       \<or> (\<exists>r s. ecdsaSign env privKey (hashSum env h msg) = Inr (r, s)
            \<and> copyPadded (Bytes r) (keyBytesOf (BitSize (Params (Curve privKey))))
                = Return (leftPad (curveByteLen (Curve privKey)) (Bytes r))
            \<and> copyPadded (Bytes s) (keyBytesOf (BitSize (Params (Curve privKey))))
                = Return (leftPad (curveByteLen (Curve privKey)) (Bytes s))
            \<and> signEcdsa env msg privKey h
                = Return (Some (leftPad (curveByteLen (Curve privKey)) (Bytes r)
                                @ leftPad (curveByteLen (Curve privKey)) (Bytes s)), None)
            \<and> length (leftPad (curveByteLen (Curve privKey)) (Bytes r)
                       @ leftPad (curveByteLen (Curve privKey)) (Bytes s))
                = 2 * curveByteLen (Curve privKey))"
proof (cases "ecdsaSign env privKey (hashSum env h msg)")
  case (Inl err)
  then show ?thesis
    by (simp add: signEcdsa_def)
next
  case (Inr rs)
  obtain r s where rs: "rs = (r, s)"
    by (cases rs)
  let ?ps = "Params (Curve privKey)"
  let ?kb = "curveByteLen (Curve privKey)"
  have kb: "keyBytesOf (BitSize ?ps) = ?kb"
    by (rule keyBytesOf_curve)
  have bound: "int (N ?ps) \<le> 256 ^ ?kb"
  proof -
    have "N ?ps \<le> 256 ^ ?kb"
      using order pow2_le_pow256_ceil [of "BitSize ?ps"]
      by (simp add: curveByteLen_def)
    then have "int (N ?ps) \<le> int (256 ^ ?kb)"
      by (simp only: of_nat_le_iff)
    then show ?thesis by simp
  qed
  from reduced Inr rs have "\<bar>r\<bar> < int (N ?ps)" "\<bar>s\<bar> < int (N ?ps)"
    by blast+
  with bound have "\<bar>r\<bar> < 256 ^ ?kb" "\<bar>s\<bar> < 256 ^ ?kb"
    by linarith+
  then have lr: "length (Bytes r) \<le> ?kb" and ls: "length (Bytes s) \<le> ?kb"
    by (simp_all add: length_Bytes_le)
  then have cr: "copyPadded (Bytes r) ?kb = Return (leftPad ?kb (Bytes r))"
    and cs: "copyPadded (Bytes s) ?kb = Return (leftPad ?kb (Bytes s))"
    by (simp_all add: copyPadded_fits)
  have "signEcdsa env msg privKey h
          = Return (Some (leftPad ?kb (Bytes r) @ leftPad ?kb (Bytes s)), None)"
    using Inr rs cr cs by (simp add: signEcdsa_def kb Let_def)
  moreover have "length (leftPad ?kb (Bytes r) @ leftPad ?kb (Bytes s)) = 2 * ?kb"
    using lr ls by (simp add: length_leftPad)
  ultimately show ?thesis
    using Inr rs cr cs kb by simp
qed

theorem C10_signEcdsa_total_witness:
  "N (Params (Curve (demoKey P256))) \<le> 2 ^ BitSize (Params (Curve (demoKey P256)))
   \<and> ecdsaSign demoEnv (demoKey P256) (hashSum demoEnv SHA256 [1, 2, 3]) = Inr (4, 5)
   \<and> \<bar>4\<bar> < int (N (Params (Curve (demoKey P256))))
   \<and> \<bar>5\<bar> < int (N (Params (Curve (demoKey P256))))
   \<and> copyPadded (Bytes 4) (keyBytesOf (BitSize (Params (Curve (demoKey P256)))))
        = Return (replicate 31 0 @ [4])
   \<and> signEcdsa demoEnv [1, 2, 3] (demoKey P256) SHA256
        = Return (Some (replicate 31 0 @ [4] @ replicate 31 0 @ [5]), None)"
proof -
  have order: "N (Params (Curve (demoKey P256))) \<le> 2 ^ BitSize (Params (Curve (demoKey P256)))"
    by (simp add: demoKey_def)
  have prim: "ecdsaSign demoEnv (demoKey P256) (hashSum demoEnv SHA256 [1, 2, 3]) = Inr (4, 5)"
    by (simp add: demoEnv_def demoKey_def)
  have small: "\<bar>4\<bar> < int (N (Params (Curve (demoKey P256))))"
    "\<bar>5\<bar> < int (N (Params (Curve (demoKey P256))))"
    by (simp_all add: demoKey_def)
  have reduced: "\<bar>r\<bar> < int (N (Params (Curve (demoKey P256))))
                 \<and> \<bar>s\<bar> < int (N (Params (Curve (demoKey P256))))"
    if "ecdsaSign demoEnv (demoKey P256) (hashSum demoEnv SHA256 [1, 2, 3]) = Inr (r, s)" for r s
    using that small by (simp add: prim)
  have pads: "leftPad (curveByteLen (Curve (demoKey P256))) (Bytes 4) = replicate 31 0 @ [4]"
    "leftPad (curveByteLen (Curve (demoKey P256))) (Bytes 5) = replicate 31 0 @ [5]"
    by (simp_all add: demoKey_def curveByteLen_supported leftPad_def Bytes_def natBytes_step
        natBytes_zero)
  from C10_signEcdsa_total [of "demoKey P256" demoEnv SHA256 "[1, 2, 3]", OF order reduced]
  have "copyPadded (Bytes 4) (keyBytesOf (BitSize (Params (Curve (demoKey P256)))))
          = Return (replicate 31 0 @ [4])
        \<and> signEcdsa demoEnv [1, 2, 3] (demoKey P256) SHA256
          = Return (Some (replicate 31 0 @ [4] @ replicate 31 0 @ [5]), None)"
    by (simp add: prim pads)
  with order prim small show ?thesis
    by blast
qed

section \<open>Facts about the constructors\<close>

lemma newECDSASigner_Some:
  "newECDSASigner env privKey pubKey h a = (Some es, e)
    \<Longrightarrow> privateKey es = privKey \<and> PubKey es = pubKey \<and> hash es = h \<and> alg es = a \<and> e = None"
  by (auto simp: newECDSASigner_def split: sum.splits)

lemma newECDSASigner_shape:
  "newECDSASigner env privKey pubKey h a = (so, eo) \<Longrightarrow> (so = None) = (eo \<noteq> None)"
  by (auto simp: newECDSASigner_def split: sum.splits)

lemmas New_defs =
  NewECDSAP256Signer_def NewECDSAP384Signer_def NewECDSAP521Signer_def
  NewECDSASecp256k1Signer_def

lemmas Get_defs =
  GetECDSAP256Signer_def GetECDSAP384Signer_def GetECDSAP521Signer_def
  GetECDSASecp256k1Signer_def

lemma NewECDSASigner_shape:
  "NewECDSASigner env c = (so, eo) \<Longrightarrow> (so = None) = (eo \<noteq> None)"
  by (cases c) (auto simp: New_defs split: sum.splits dest: newECDSASigner_shape)

lemma GetECDSASigner_shape:
  "GetECDSASigner env privKey = (so, eo) \<Longrightarrow> (so = None) = (eo \<noteq> None)"
  by (cases "Curve privKey")
    (auto simp: GetECDSASigner_def Get_defs dest: newECDSASigner_shape)

lemma NewECDSASigner_keygen_error:
  "c \<in> {P256, P384, P521, S256} \<Longrightarrow> GenerateKey env c = Inl err
    \<Longrightarrow> NewECDSASigner env c = (None, Some err)"
  by (auto simp: New_defs)

lemma signEcdsa_shape:
  "signEcdsa env msg privKey h = Return (so, eo) \<Longrightarrow> (so = None) = (eo \<noteq> None)"
  by (auto simp: signEcdsa_def Let_def split: sum.splits outcome.splits)

text \<open>
  Claim C3. Construction for a curve outside the table (P-256, P-384, P-521, secp256k1)
  returns \<open>nil\<close> and the error "unsupported curve", from \<open>NewECDSASigner\<close> as from
  \<open>GetECDSASigner\<close>. A failure of key generation is returned as it is, with \<open>nil\<close>
  for the signer; a failure of \<open>ecdsa.Sign\<close> is returned as it is, with \<open>nil\<close> for the
  signature. Every result of the two constructors and of \<open>Sign\<close> holds either an
  object and no error, or an error and no object: never a partial signer, never a
  signature next to an error.
\<close>

theorem C3_failures_return_no_object:
  "NewECDSASigner env (OtherCurve ps) = (None, Some (Error ''unsupported curve''))
   \<and> (Curve privKey = OtherCurve ps
        \<longrightarrow> GetECDSASigner env privKey = (None, Some (Error ''unsupported curve'')))
   \<and> (c \<in> {P256, P384, P521, S256} \<and> GenerateKey env c = Inl err
        \<longrightarrow> NewECDSASigner env c = (None, Some err))
   \<and> (ecdsaSign env (privateKey es) (hashSum env (hash es) msg) = Inl err
        \<longrightarrow> Sign env es msg = Return (None, Some err))
   \<and> (NewECDSASigner env c = (so, eo) \<longrightarrow> (so = None) = (eo \<noteq> None))
   \<and> (GetECDSASigner env privKey = (so, eo) \<longrightarrow> (so = None) = (eo \<noteq> None))
   \<and> (Sign env es msg = Return (sigo, eo) \<longrightarrow> (sigo = None) = (eo \<noteq> None))"
proof -
  have "Curve privKey = OtherCurve ps
          \<longrightarrow> GetECDSASigner env privKey = (None, Some (Error ''unsupported curve''))"
    by (simp add: GetECDSASigner_def)
  moreover have "c \<in> {P256, P384, P521, S256} \<and> GenerateKey env c = Inl err
          \<longrightarrow> NewECDSASigner env c = (None, Some err)"
    using NewECDSASigner_keygen_error by blast
  moreover have "ecdsaSign env (privateKey es) (hashSum env (hash es) msg) = Inl err
          \<longrightarrow> Sign env es msg = Return (None, Some err)"
    by (simp add: Sign_def signEcdsa_error)
  moreover have "NewECDSASigner env c = (so, eo) \<longrightarrow> (so = None) = (eo \<noteq> None)"
    using NewECDSASigner_shape by blast
  moreover have "GetECDSASigner env privKey = (so, eo) \<longrightarrow> (so = None) = (eo \<noteq> None)"
    using GetECDSASigner_shape by blast
  moreover have "Sign env es msg = Return (sigo, eo) \<longrightarrow> (sigo = None) = (eo \<noteq> None)"
    using signEcdsa_shape [of env msg "privateKey es" "hash es" sigo eo]
    by (simp add: Sign_def)
  ultimately show ?thesis
    by simp
qed

theorem C3_failures_return_no_object_witness:
  "NewECDSASigner failingEnv (OtherCurve \<lparr>N = 7, BitSize = 3\<rparr>)
     = (None, Some (Error ''unsupported curve''))
   \<and> Curve (demoKey (OtherCurve \<lparr>N = 7, BitSize = 3\<rparr>)) = OtherCurve \<lparr>N = 7, BitSize = 3\<rparr>
   \<and> GetECDSASigner failingEnv (demoKey (OtherCurve \<lparr>N = 7, BitSize = 3\<rparr>))
     = (None, Some (Error ''unsupported curve''))
   \<and> GenerateKey failingEnv P384 = Inl (Error ''entropy'')
   \<and> NewECDSASigner failingEnv P384 = (None, Some (Error ''entropy''))
   \<and> ecdsaSign failingEnv (privateKey (demoSigner P384 SHA384 P384Alg))
        (hashSum failingEnv (hash (demoSigner P384 SHA384 P384Alg)) [1, 2, 3])
     = Inl (Error ''entropy'')
   \<and> Sign failingEnv (demoSigner P384 SHA384 P384Alg) [1, 2, 3]
     = Return (None, Some (Error ''entropy''))"
  using C3_failures_return_no_object [of failingEnv "\<lparr>N = 7, BitSize = 3\<rparr>"
      "demoKey (OtherCurve \<lparr>N = 7, BitSize = 3\<rparr>)" P384 "Error ''entropy''"
      "demoSigner P384 SHA384 P384Alg" "[1, 2, 3]" None "Some (Error ''entropy'')" None]
  by (simp add: failingEnv_def demoKey_def demoSigner_def)

lemma newECDSASigner_Inr:
  "JWKFromKey env pubKey = Inr pubJWK
    \<Longrightarrow> newECDSASigner env privKey pubKey h a
        = (Some \<lparr>privateKey = privKey, PubKey = pubKey, PubKeyJWK = pubJWK,
                  pubKeyBytes = Marshal env (Curve pubKey) (X pubKey) (Y pubKey),
                  hash = h, alg = a\<rparr>, None)"
  by (simp add: newECDSASigner_def)

lemma Sign_digest:
  "Sign env es msg = Return (Some sig, e)
    \<Longrightarrow> \<exists>r s. ecdsaSign env (privateKey es) (hashSum env (hash es) msg) = Inr (r, s)"
  using signEcdsa_success [of env msg "privateKey es" "hash es" sig e]
  by (auto simp: Sign_def)

text \<open>
  Claim C4. A signer built for P-256, with a generated or a given key, hashes with
  SHA-256 and its \<open>Alg()\<close> is "ES256"; for P-384 it is SHA-384 and "ES384"; for
  secp256k1 SHA-256 and "ES256K"; for P-521 it is SHA-512 and the identifier of the
  constant \<open>P521Alg\<close>, which is "ES521" and so differs from "ES512", the JWA name of ECDSA
  with P-521 and SHA-512. The two dispatchers bind the same pairs to the curve they
  receive, and \<open>Sign\<close> digests the message with the bound hash.

  The first group of conjuncts says that whatever signer a constructor returns carries
  its curve's pair. The second group says that each constructor does return a signer:
  whenever key generation (for the generating constructors) and the JWK export succeed,
  the result is a signer and no error, holding the key, its public part, the exported
  JWK, the marshalled public key, and the curve's hash and identifier; the dispatcher
  returns the same signer for that curve. The last conjuncts say that \<open>Sign\<close> hashes with
  the signer's hash: the digest handed to \<open>ecdsa.Sign\<close> is the one under \<open>hash es\<close>.
\<close>

theorem C4_hash_and_alg_bindings:
  "(NewECDSAP256Signer env = (Some es, e) \<or> GetECDSAP256Signer env privKey = (Some es, e)
      \<longrightarrow> hash es = SHA256 \<and> Alg es = ''ES256'')
   \<and> (NewECDSAP384Signer env = (Some es, e) \<or> GetECDSAP384Signer env privKey = (Some es, e)
      \<longrightarrow> hash es = SHA384 \<and> Alg es = ''ES384'')
   \<and> (NewECDSAP521Signer env = (Some es, e) \<or> GetECDSAP521Signer env privKey = (Some es, e)
      \<longrightarrow> hash es = SHA512 \<and> Alg es = ''ES521'' \<and> Alg es = P521Alg \<and> Alg es \<noteq> ''ES512'')
   \<and> (NewECDSASecp256k1Signer env = (Some es, e)
        \<or> GetECDSASecp256k1Signer env privKey = (Some es, e)
      \<longrightarrow> hash es = SHA256 \<and> Alg es = ''ES256K'')
   \<and> (NewECDSASigner env c = (Some es, e)
      \<longrightarrow> (c = P256 \<and> hash es = SHA256 \<and> Alg es = ''ES256'')
        \<or> (c = P384 \<and> hash es = SHA384 \<and> Alg es = ''ES384'')
        \<or> (c = P521 \<and> hash es = SHA512 \<and> Alg es = ''ES521'')
        \<or> (c = S256 \<and> hash es = SHA256 \<and> Alg es = ''ES256K''))
   \<and> (GetECDSASigner env privKey = (Some es, e)
      \<longrightarrow> (Curve privKey = P256 \<and> hash es = SHA256 \<and> Alg es = ''ES256'')
        \<or> (Curve privKey = P384 \<and> hash es = SHA384 \<and> Alg es = ''ES384'')
        \<or> (Curve privKey = P521 \<and> hash es = SHA512 \<and> Alg es = ''ES521'')
        \<or> (Curve privKey = S256 \<and> hash es = SHA256 \<and> Alg es = ''ES256K''))
   \<and> Sign env es msg = signEcdsa env msg (privateKey es) (hash es)
   \<and> (GenerateKey env P256 = Inr k \<and> JWKFromKey env (PublicKeyOf k) = Inr j
      \<longrightarrow> (\<exists>s. NewECDSAP256Signer env = (Some s, None) \<and> NewECDSASigner env P256 = (Some s, None)
             \<and> privateKey s = k \<and> PubKey s = PublicKeyOf k \<and> PubKeyJWK s = j
             \<and> pubKeyBytes s = Marshal env (Curve k) (X k) (Y k)
             \<and> hash s = SHA256 \<and> Alg s = ''ES256''))
   \<and> (GenerateKey env P384 = Inr k \<and> JWKFromKey env (PublicKeyOf k) = Inr j
      \<longrightarrow> (\<exists>s. NewECDSAP384Signer env = (Some s, None) \<and> NewECDSASigner env P384 = (Some s, None)
             \<and> privateKey s = k \<and> PubKey s = PublicKeyOf k \<and> PubKeyJWK s = j
             \<and> pubKeyBytes s = Marshal env (Curve k) (X k) (Y k)
             \<and> hash s = SHA384 \<and> Alg s = ''ES384''))
   \<and> (GenerateKey env P521 = Inr k \<and> JWKFromKey env (PublicKeyOf k) = Inr j
      \<longrightarrow> (\<exists>s. NewECDSAP521Signer env = (Some s, None) \<and> NewECDSASigner env P521 = (Some s, None)
             \<and> privateKey s = k \<and> PubKey s = PublicKeyOf k \<and> PubKeyJWK s = j
             \<and> pubKeyBytes s = Marshal env (Curve k) (X k) (Y k)
             \<and> hash s = SHA512 \<and> Alg s = ''ES521''))
   \<and> (GenerateKey env S256 = Inr k \<and> JWKFromKey env (PublicKeyOf k) = Inr j
      \<longrightarrow> (\<exists>s. NewECDSASecp256k1Signer env = (Some s, None)
             \<and> NewECDSASigner env S256 = (Some s, None)
             \<and> privateKey s = k \<and> PubKey s = PublicKeyOf k \<and> PubKeyJWK s = j
             \<and> pubKeyBytes s = Marshal env (Curve k) (X k) (Y k)
             \<and> hash s = SHA256 \<and> Alg s = ''ES256K''))
   \<and> (JWKFromKey env (PublicKeyOf k) = Inr j
      \<longrightarrow> (\<exists>s. GetECDSAP256Signer env k = (Some s, None)
             \<and> privateKey s = k \<and> PubKey s = PublicKeyOf k \<and> PubKeyJWK s = j
             \<and> pubKeyBytes s = Marshal env (Curve k) (X k) (Y k)
             \<and> hash s = SHA256 \<and> Alg s = ''ES256'')
        \<and> (\<exists>s. GetECDSAP384Signer env k = (Some s, None)
             \<and> privateKey s = k \<and> PubKey s = PublicKeyOf k \<and> PubKeyJWK s = j
             \<and> pubKeyBytes s = Marshal env (Curve k) (X k) (Y k)
             \<and> hash s = SHA384 \<and> Alg s = ''ES384'')
        \<and> (\<exists>s. GetECDSAP521Signer env k = (Some s, None)
             \<and> privateKey s = k \<and> PubKey s = PublicKeyOf k \<and> PubKeyJWK s = j
             \<and> pubKeyBytes s = Marshal env (Curve k) (X k) (Y k)
             \<and> hash s = SHA512 \<and> Alg s = ''ES521'')
        \<and> (\<exists>s. GetECDSASecp256k1Signer env k = (Some s, None)
             \<and> privateKey s = k \<and> PubKey s = PublicKeyOf k \<and> PubKeyJWK s = j
             \<and> pubKeyBytes s = Marshal env (Curve k) (X k) (Y k)
             \<and> hash s = SHA256 \<and> Alg s = ''ES256K''))
   \<and> (Curve k = P256 \<longrightarrow> GetECDSASigner env k = GetECDSAP256Signer env k)
   \<and> (Curve k = P384 \<longrightarrow> GetECDSASigner env k = GetECDSAP384Signer env k)
   \<and> (Curve k = P521 \<longrightarrow> GetECDSASigner env k = GetECDSAP521Signer env k)
   \<and> (Curve k = S256 \<longrightarrow> GetECDSASigner env k = GetECDSASecp256k1Signer env k)
   \<and> (Sign env es msg = Return (Some sig, e)
      \<longrightarrow> (\<exists>r s. ecdsaSign env (privateKey es) (hashSum env (hash es) msg) = Inr (r, s)))"
proof -
  have p256: "NewECDSAP256Signer env = (Some es, e) \<or> GetECDSAP256Signer env privKey = (Some es, e)
      \<longrightarrow> hash es = SHA256 \<and> Alg es = ''ES256''"
    by (auto simp: New_defs Get_defs Alg_def P256Alg_def split: sum.splits
        dest!: newECDSASigner_Some)
  have p384: "NewECDSAP384Signer env = (Some es, e) \<or> GetECDSAP384Signer env privKey = (Some es, e)
      \<longrightarrow> hash es = SHA384 \<and> Alg es = ''ES384''"
    by (auto simp: New_defs Get_defs Alg_def P384Alg_def split: sum.splits
        dest!: newECDSASigner_Some)
  have p521: "NewECDSAP521Signer env = (Some es, e) \<or> GetECDSAP521Signer env privKey = (Some es, e)
      \<longrightarrow> hash es = SHA512 \<and> Alg es = ''ES521'' \<and> Alg es = P521Alg \<and> Alg es \<noteq> ''ES512''"
    by (auto simp: New_defs Get_defs Alg_def P521Alg_def split: sum.splits
        dest!: newECDSASigner_Some)
  have s256: "NewECDSASecp256k1Signer env = (Some es, e)
        \<or> GetECDSASecp256k1Signer env privKey = (Some es, e)
      \<longrightarrow> hash es = SHA256 \<and> Alg es = ''ES256K''"
    by (auto simp: New_defs Get_defs Alg_def Secp256Alg_def split: sum.splits
        dest!: newECDSASigner_Some)
  have new: "NewECDSASigner env c = (Some es, e)
      \<longrightarrow> (c = P256 \<and> hash es = SHA256 \<and> Alg es = ''ES256'')
        \<or> (c = P384 \<and> hash es = SHA384 \<and> Alg es = ''ES384'')
        \<or> (c = P521 \<and> hash es = SHA512 \<and> Alg es = ''ES521'')
        \<or> (c = S256 \<and> hash es = SHA256 \<and> Alg es = ''ES256K'')"
    using p256 p384 p521 s256 by (cases c) simp_all
  have get: "GetECDSASigner env privKey = (Some es, e)
      \<longrightarrow> (Curve privKey = P256 \<and> hash es = SHA256 \<and> Alg es = ''ES256'')
        \<or> (Curve privKey = P384 \<and> hash es = SHA384 \<and> Alg es = ''ES384'')
        \<or> (Curve privKey = P521 \<and> hash es = SHA512 \<and> Alg es = ''ES521'')
        \<or> (Curve privKey = S256 \<and> hash es = SHA256 \<and> Alg es = ''ES256K'')"
    using p256 p384 p521 s256 by (cases "Curve privKey") (simp_all add: GetECDSASigner_def)
  have sign: "Sign env es msg = signEcdsa env msg (privateKey es) (hash es)"
    by (simp add: Sign_def)
  have n256: "GenerateKey env P256 = Inr k \<and> JWKFromKey env (PublicKeyOf k) = Inr j
      \<longrightarrow> (\<exists>s. NewECDSAP256Signer env = (Some s, None) \<and> NewECDSASigner env P256 = (Some s, None)
             \<and> privateKey s = k \<and> PubKey s = PublicKeyOf k \<and> PubKeyJWK s = j
             \<and> pubKeyBytes s = Marshal env (Curve k) (X k) (Y k)
             \<and> hash s = SHA256 \<and> Alg s = ''ES256'')"
    by (simp add: NewECDSAP256Signer_def newECDSASigner_Inr Alg_def P256Alg_def PublicKeyOf_def)
  have n384: "GenerateKey env P384 = Inr k \<and> JWKFromKey env (PublicKeyOf k) = Inr j
      \<longrightarrow> (\<exists>s. NewECDSAP384Signer env = (Some s, None) \<and> NewECDSASigner env P384 = (Some s, None)
             \<and> privateKey s = k \<and> PubKey s = PublicKeyOf k \<and> PubKeyJWK s = j
             \<and> pubKeyBytes s = Marshal env (Curve k) (X k) (Y k)
             \<and> hash s = SHA384 \<and> Alg s = ''ES384'')"
    by (simp add: NewECDSAP384Signer_def newECDSASigner_Inr Alg_def P384Alg_def PublicKeyOf_def)
  have n521: "GenerateKey env P521 = Inr k \<and> JWKFromKey env (PublicKeyOf k) = Inr j
      \<longrightarrow> (\<exists>s. NewECDSAP521Signer env = (Some s, None) \<and> NewECDSASigner env P521 = (Some s, None)
             \<and> privateKey s = k \<and> PubKey s = PublicKeyOf k \<and> PubKeyJWK s = j
             \<and> pubKeyBytes s = Marshal env (Curve k) (X k) (Y k)
             \<and> hash s = SHA512 \<and> Alg s = ''ES521'')"
    by (simp add: NewECDSAP521Signer_def newECDSASigner_Inr Alg_def P521Alg_def PublicKeyOf_def)
  have nk1: "GenerateKey env S256 = Inr k \<and> JWKFromKey env (PublicKeyOf k) = Inr j
      \<longrightarrow> (\<exists>s. NewECDSASecp256k1Signer env = (Some s, None)
             \<and> NewECDSASigner env S256 = (Some s, None)
             \<and> privateKey s = k \<and> PubKey s = PublicKeyOf k \<and> PubKeyJWK s = j
             \<and> pubKeyBytes s = Marshal env (Curve k) (X k) (Y k)
             \<and> hash s = SHA256 \<and> Alg s = ''ES256K'')"
    by (simp add: NewECDSASecp256k1Signer_def newECDSASigner_Inr Alg_def Secp256Alg_def
        PublicKeyOf_def)
  have given: "JWKFromKey env (PublicKeyOf k) = Inr j
      \<longrightarrow> (\<exists>s. GetECDSAP256Signer env k = (Some s, None)
             \<and> privateKey s = k \<and> PubKey s = PublicKeyOf k \<and> PubKeyJWK s = j
             \<and> pubKeyBytes s = Marshal env (Curve k) (X k) (Y k)
             \<and> hash s = SHA256 \<and> Alg s = ''ES256'')
        \<and> (\<exists>s. GetECDSAP384Signer env k = (Some s, None)
             \<and> privateKey s = k \<and> PubKey s = PublicKeyOf k \<and> PubKeyJWK s = j
             \<and> pubKeyBytes s = Marshal env (Curve k) (X k) (Y k)
             \<and> hash s = SHA384 \<and> Alg s = ''ES384'')
        \<and> (\<exists>s. GetECDSAP521Signer env k = (Some s, None)
             \<and> privateKey s = k \<and> PubKey s = PublicKeyOf k \<and> PubKeyJWK s = j
             \<and> pubKeyBytes s = Marshal env (Curve k) (X k) (Y k)
             \<and> hash s = SHA512 \<and> Alg s = ''ES521'')
        \<and> (\<exists>s. GetECDSASecp256k1Signer env k = (Some s, None)
             \<and> privateKey s = k \<and> PubKey s = PublicKeyOf k \<and> PubKeyJWK s = j
             \<and> pubKeyBytes s = Marshal env (Curve k) (X k) (Y k)
             \<and> hash s = SHA256 \<and> Alg s = ''ES256K'')"
    by (simp add: Get_defs newECDSASigner_Inr Alg_def P256Alg_def P384Alg_def P521Alg_def
        Secp256Alg_def PublicKeyOf_def)
  have d256: "Curve k = P256 \<longrightarrow> GetECDSASigner env k = GetECDSAP256Signer env k"
    and d384: "Curve k = P384 \<longrightarrow> GetECDSASigner env k = GetECDSAP384Signer env k"
    and d521: "Curve k = P521 \<longrightarrow> GetECDSASigner env k = GetECDSAP521Signer env k"
    and dk1: "Curve k = S256 \<longrightarrow> GetECDSASigner env k = GetECDSASecp256k1Signer env k"
    by (simp_all add: GetECDSASigner_def)
  have digest: "Sign env es msg = Return (Some sig, e)
      \<longrightarrow> (\<exists>r s. ecdsaSign env (privateKey es) (hashSum env (hash es) msg) = Inr (r, s))"
    using Sign_digest by blast
  show ?thesis
    by (intro conjI)
      (fact p256 p384 p521 s256 new get sign n256 n384 n521 nk1 given d256 d384 d521 dk1
        digest)+
qed

lemma demo_new:
  "NewECDSASigner demoEnv P256 = (Some (demoSigner P256 SHA256 ''ES256''), None)"
  "NewECDSASigner demoEnv P384 = (Some (demoSigner P384 SHA384 ''ES384''), None)"
  "NewECDSASigner demoEnv P521 = (Some (demoSigner P521 SHA512 ''ES521''), None)"
  "NewECDSASigner demoEnv S256 = (Some (demoSigner S256 SHA256 ''ES256K''), None)"
  by (simp_all add: New_defs newECDSASigner_def demoEnv_def demoSigner_def demoKey_def
      PublicKeyOf_def P256Alg_def P384Alg_def P521Alg_def Secp256Alg_def)

lemma demo_get:
  "GetECDSASigner demoEnv (demoKey P256) = (Some (demoSigner P256 SHA256 ''ES256''), None)"
  "GetECDSASigner demoEnv (demoKey P384) = (Some (demoSigner P384 SHA384 ''ES384''), None)"
  "GetECDSASigner demoEnv (demoKey P521) = (Some (demoSigner P521 SHA512 ''ES521''), None)"
  "GetECDSASigner demoEnv (demoKey S256) = (Some (demoSigner S256 SHA256 ''ES256K''), None)"
  by (simp_all add: GetECDSASigner_def Get_defs newECDSASigner_def demoEnv_def demoSigner_def
      demoKey_def PublicKeyOf_def P256Alg_def P384Alg_def P521Alg_def Secp256Alg_def)

lemma demo_libs:
  "GenerateKey demoEnv c = Inr (demoKey c)"
  "JWKFromKey demoEnv (PublicKeyOf (demoKey c)) = Inr 0"
  by (simp_all add: demoEnv_def)

theorem C4_hash_and_alg_bindings_witness:
  "GenerateKey demoEnv P256 = Inr (demoKey P256)
   \<and> JWKFromKey demoEnv (PublicKeyOf (demoKey P256)) = Inr 0
   \<and> Curve (demoKey P256) = P256
   \<and> (\<exists>s. NewECDSASigner demoEnv P256 = (Some s, None) \<and> privateKey s = demoKey P256
          \<and> hash s = SHA256 \<and> Alg s = ''ES256'')
   \<and> (\<exists>s. GetECDSASigner demoEnv (demoKey P256) = (Some s, None) \<and> privateKey s = demoKey P256
          \<and> hash s = SHA256 \<and> Alg s = ''ES256'')
   \<and> NewECDSASigner demoEnv P256 = (Some (demoSigner P256 SHA256 ''ES256''), None)
   \<and> GetECDSASigner demoEnv (demoKey P256) = (Some (demoSigner P256 SHA256 ''ES256''), None)
   \<and> GenerateKey demoEnv P384 = Inr (demoKey P384)
   \<and> JWKFromKey demoEnv (PublicKeyOf (demoKey P384)) = Inr 0
   \<and> Curve (demoKey P384) = P384
   \<and> (\<exists>s. NewECDSASigner demoEnv P384 = (Some s, None) \<and> privateKey s = demoKey P384
          \<and> hash s = SHA384 \<and> Alg s = ''ES384'')
   \<and> (\<exists>s. GetECDSASigner demoEnv (demoKey P384) = (Some s, None) \<and> privateKey s = demoKey P384
          \<and> hash s = SHA384 \<and> Alg s = ''ES384'')
   \<and> NewECDSASigner demoEnv P384 = (Some (demoSigner P384 SHA384 ''ES384''), None)
   \<and> GetECDSASigner demoEnv (demoKey P384) = (Some (demoSigner P384 SHA384 ''ES384''), None)
   \<and> GenerateKey demoEnv P521 = Inr (demoKey P521)
   \<and> JWKFromKey demoEnv (PublicKeyOf (demoKey P521)) = Inr 0
   \<and> Curve (demoKey P521) = P521
   \<and> (\<exists>s. NewECDSASigner demoEnv P521 = (Some s, None) \<and> privateKey s = demoKey P521
          \<and> hash s = SHA512 \<and> Alg s = ''ES521'')
   \<and> (\<exists>s. GetECDSASigner demoEnv (demoKey P521) = (Some s, None) \<and> privateKey s = demoKey P521
          \<and> hash s = SHA512 \<and> Alg s = ''ES521'')
   \<and> NewECDSASigner demoEnv P521 = (Some (demoSigner P521 SHA512 ''ES521''), None)
   \<and> GetECDSASigner demoEnv (demoKey P521) = (Some (demoSigner P521 SHA512 ''ES521''), None)
   \<and> GenerateKey demoEnv S256 = Inr (demoKey S256)
   \<and> JWKFromKey demoEnv (PublicKeyOf (demoKey S256)) = Inr 0
   \<and> Curve (demoKey S256) = S256
   \<and> (\<exists>s. NewECDSASigner demoEnv S256 = (Some s, None) \<and> privateKey s = demoKey S256
          \<and> hash s = SHA256 \<and> Alg s = ''ES256K'')
   \<and> (\<exists>s. GetECDSASigner demoEnv (demoKey S256) = (Some s, None) \<and> privateKey s = demoKey S256
          \<and> hash s = SHA256 \<and> Alg s = ''ES256K'')
   \<and> NewECDSASigner demoEnv S256 = (Some (demoSigner S256 SHA256 ''ES256K''), None)
   \<and> GetECDSASigner demoEnv (demoKey S256) = (Some (demoSigner S256 SHA256 ''ES256K''), None)"
proof -
  note iP256 = C4_hash_and_alg_bindings [of demoEnv "demoSigner P256 SHA256 ''ES256''" None
      "demoKey P256" P256 "[]" "demoKey P256" 0 "[]"]
  have cP256: "Curve (demoKey P256) = P256"
    by (simp add: demoKey_def)
  have nfP256: "\<exists>s. NewECDSAP256Signer demoEnv = (Some s, None) \<and> NewECDSASigner demoEnv P256 = (Some s, None)
             \<and> privateKey s = demoKey P256 \<and> PubKey s = PublicKeyOf (demoKey P256) \<and> PubKeyJWK s = 0
             \<and> pubKeyBytes s = Marshal demoEnv (Curve (demoKey P256)) (X (demoKey P256)) (Y (demoKey P256))
             \<and> hash s = SHA256 \<and> Alg s = ''ES256''"
    using iP256 by (simp only: demo_libs simp_thms)
  then have nP256: "\<exists>s. NewECDSASigner demoEnv P256 = (Some s, None) \<and> privateKey s = demoKey P256
          \<and> hash s = SHA256 \<and> Alg s = ''ES256''"
    by blast
  have gfP256: "\<exists>s. GetECDSAP256Signer demoEnv (demoKey P256) = (Some s, None)
             \<and> privateKey s = demoKey P256 \<and> PubKey s = PublicKeyOf (demoKey P256) \<and> PubKeyJWK s = 0
             \<and> pubKeyBytes s = Marshal demoEnv (Curve (demoKey P256)) (X (demoKey P256)) (Y (demoKey P256))
             \<and> hash s = SHA256 \<and> Alg s = ''ES256''"
    using iP256 by (simp only: demo_libs simp_thms)
  have dP256: "GetECDSASigner demoEnv (demoKey P256) = GetECDSAP256Signer demoEnv (demoKey P256)"
    using iP256 by (simp only: cP256 simp_thms)
  from gfP256 have gP256: "\<exists>s. GetECDSASigner demoEnv (demoKey P256) = (Some s, None) \<and> privateKey s = demoKey P256
          \<and> hash s = SHA256 \<and> Alg s = ''ES256''"
    unfolding dP256 by blast
  note iP384 = C4_hash_and_alg_bindings [of demoEnv "demoSigner P384 SHA384 ''ES384''" None
      "demoKey P384" P384 "[]" "demoKey P384" 0 "[]"]
  have cP384: "Curve (demoKey P384) = P384"
    by (simp add: demoKey_def)
  have nfP384: "\<exists>s. NewECDSAP384Signer demoEnv = (Some s, None) \<and> NewECDSASigner demoEnv P384 = (Some s, None)
             \<and> privateKey s = demoKey P384 \<and> PubKey s = PublicKeyOf (demoKey P384) \<and> PubKeyJWK s = 0
             \<and> pubKeyBytes s = Marshal demoEnv (Curve (demoKey P384)) (X (demoKey P384)) (Y (demoKey P384))
             \<and> hash s = SHA384 \<and> Alg s = ''ES384''"
    using iP384 by (simp only: demo_libs simp_thms)
  then have nP384: "\<exists>s. NewECDSASigner demoEnv P384 = (Some s, None) \<and> privateKey s = demoKey P384
          \<and> hash s = SHA384 \<and> Alg s = ''ES384''"
    by blast
  have gfP384: "\<exists>s. GetECDSAP384Signer demoEnv (demoKey P384) = (Some s, None)
             \<and> privateKey s = demoKey P384 \<and> PubKey s = PublicKeyOf (demoKey P384) \<and> PubKeyJWK s = 0
             \<and> pubKeyBytes s = Marshal demoEnv (Curve (demoKey P384)) (X (demoKey P384)) (Y (demoKey P384))
             \<and> hash s = SHA384 \<and> Alg s = ''ES384''"
    using iP384 by (simp only: demo_libs simp_thms)
  have dP384: "GetECDSASigner demoEnv (demoKey P384) = GetECDSAP384Signer demoEnv (demoKey P384)"
    using iP384 by (simp only: cP384 simp_thms)
  from gfP384 have gP384: "\<exists>s. GetECDSASigner demoEnv (demoKey P384) = (Some s, None) \<and> privateKey s = demoKey P384
          \<and> hash s = SHA384 \<and> Alg s = ''ES384''"
    unfolding dP384 by blast
  note iP521 = C4_hash_and_alg_bindings [of demoEnv "demoSigner P521 SHA512 ''ES521''" None
      "demoKey P521" P521 "[]" "demoKey P521" 0 "[]"]
  have cP521: "Curve (demoKey P521) = P521"
    by (simp add: demoKey_def)
  have nfP521: "\<exists>s. NewECDSAP521Signer demoEnv = (Some s, None) \<and> NewECDSASigner demoEnv P521 = (Some s, None)
             \<and> privateKey s = demoKey P521 \<and> PubKey s = PublicKeyOf (demoKey P521) \<and> PubKeyJWK s = 0
             \<and> pubKeyBytes s = Marshal demoEnv (Curve (demoKey P521)) (X (demoKey P521)) (Y (demoKey P521))
             \<and> hash s = SHA512 \<and> Alg s = ''ES521''"
    using iP521 by (simp only: demo_libs simp_thms)
  then have nP521: "\<exists>s. NewECDSASigner demoEnv P521 = (Some s, None) \<and> privateKey s = demoKey P521
          \<and> hash s = SHA512 \<and> Alg s = ''ES521''"
    by blast
  have gfP521: "\<exists>s. GetECDSAP521Signer demoEnv (demoKey P521) = (Some s, None)
             \<and> privateKey s = demoKey P521 \<and> PubKey s = PublicKeyOf (demoKey P521) \<and> PubKeyJWK s = 0
             \<and> pubKeyBytes s = Marshal demoEnv (Curve (demoKey P521)) (X (demoKey P521)) (Y (demoKey P521))
             \<and> hash s = SHA512 \<and> Alg s = ''ES521''"
    using iP521 by (simp only: demo_libs simp_thms)
  have dP521: "GetECDSASigner demoEnv (demoKey P521) = GetECDSAP521Signer demoEnv (demoKey P521)"
    using iP521 by (simp only: cP521 simp_thms)
  from gfP521 have gP521: "\<exists>s. GetECDSASigner demoEnv (demoKey P521) = (Some s, None) \<and> privateKey s = demoKey P521
          \<and> hash s = SHA512 \<and> Alg s = ''ES521''"
    unfolding dP521 by blast
  note iS256 = C4_hash_and_alg_bindings [of demoEnv "demoSigner S256 SHA256 ''ES256K''" None
      "demoKey S256" S256 "[]" "demoKey S256" 0 "[]"]
  have cS256: "Curve (demoKey S256) = S256"
    by (simp add: demoKey_def)
  have nfS256: "\<exists>s. NewECDSASecp256k1Signer demoEnv = (Some s, None) \<and> NewECDSASigner demoEnv S256 = (Some s, None)
             \<and> privateKey s = demoKey S256 \<and> PubKey s = PublicKeyOf (demoKey S256) \<and> PubKeyJWK s = 0
             \<and> pubKeyBytes s = Marshal demoEnv (Curve (demoKey S256)) (X (demoKey S256)) (Y (demoKey S256))
             \<and> hash s = SHA256 \<and> Alg s = ''ES256K''"
    using iS256 by (simp only: demo_libs simp_thms)
  then have nS256: "\<exists>s. NewECDSASigner demoEnv S256 = (Some s, None) \<and> privateKey s = demoKey S256
          \<and> hash s = SHA256 \<and> Alg s = ''ES256K''"
    by blast
  have gfS256: "\<exists>s. GetECDSASecp256k1Signer demoEnv (demoKey S256) = (Some s, None)
             \<and> privateKey s = demoKey S256 \<and> PubKey s = PublicKeyOf (demoKey S256) \<and> PubKeyJWK s = 0
             \<and> pubKeyBytes s = Marshal demoEnv (Curve (demoKey S256)) (X (demoKey S256)) (Y (demoKey S256))
             \<and> hash s = SHA256 \<and> Alg s = ''ES256K''"
    using iS256 by (simp only: demo_libs simp_thms)
  have dS256: "GetECDSASigner demoEnv (demoKey S256) = GetECDSASecp256k1Signer demoEnv (demoKey S256)"
    using iS256 by (simp only: cS256 simp_thms)
  from gfS256 have gS256: "\<exists>s. GetECDSASigner demoEnv (demoKey S256) = (Some s, None) \<and> privateKey s = demoKey S256
          \<and> hash s = SHA256 \<and> Alg s = ''ES256K''"
    unfolding dS256 by blast
  show ?thesis
    by (intro conjI)
      (fact demo_libs demo_new demo_get cP256 nP256 gP256 cP384 nP384 gP384 cP521 nP521 gP521 cS256 nS256 gS256)+
qed

lemma GetECDSASigner_Some:
  "GetECDSASigner env privKey = (Some es, e)
    \<Longrightarrow> privateKey es = privKey \<and> PubKey es = PublicKeyOf privKey
        \<and> curveHash (Curve privKey) = Some (hash es)"
  by (cases "Curve privKey")
    (auto simp: GetECDSASigner_def Get_defs dest!: newECDSASigner_Some)

lemma NewECDSASigner_Some:
  "NewECDSASigner env c = (Some es, e)
    \<Longrightarrow> GenerateKey env c = Inr (privateKey es) \<and> PubKey es = PublicKeyOf (privateKey es)
        \<and> curveHash c = Some (hash es)"
  by (cases c) (auto simp: New_defs split: sum.splits dest!: newECDSASigner_Some)

text \<open>
  Claim C2. For a signer built by \<open>GetECDSASigner\<close> from a key on a supported curve, or
  by \<open>NewECDSASigner\<close> when key generation returns a key on the curve it was asked for,
  and for every message: if \<open>Sign\<close> returns a signature, then \<open>Verify\<close> with the
  signer's public key accepts it. \<open>Verify\<close> cuts the signature into two halves of
  \<open>ceil(curve_bit_size/8)\<close> bytes, reads each big-endian, which gives back exactly the
  \<open>(r, s)\<close> that \<open>ecdsa.Sign\<close> produced, and hands them to the verification primitive
  with the digest under the hash bound to the curve. The primitives are parameters; what
  is assumed of them is that the verification primitive accepts, under the signer's public
  key, every pair that the signing primitive returns under its private key, and that the
  pair is not negative.
\<close>

theorem C2_verify_accepts_own_signature:
  assumes built: "GetECDSASigner env privKey = (Some es, None)
                  \<or> (NewECDSASigner env c = (Some es, None)
                      \<and> (\<forall>k. GenerateKey env c = Inr k \<longrightarrow> Curve k = c))"
      and signed: "Sign env es msg = Return (Some sig, None)"
      and prim: "\<forall>hashed r s. ecdsaSign env (privateKey es) hashed = Inr (r, s)
                   \<longrightarrow> 0 \<le> r \<and> 0 \<le> s \<and> ecdsaVerify (PubKey es) hashed r s"
  shows "Verify ecdsaVerify env (PubKey es) msg sig = None
       \<and> ecdsaSign env (privateKey es) (hashSum env (hash es) msg)
           = Inr (SetBytes (take (curveByteLen (Curve (PubKey es))) sig),
                  SetBytes (drop (curveByteLen (Curve (PubKey es))) sig))"
proof -
  let ?kb = "curveByteLen (Curve (privateKey es))"
  have key: "PubKey es = PublicKeyOf (privateKey es) \<and> curveHash (Curve (privateKey es)) = Some (hash es)"
    using built
  proof
    assume "GetECDSASigner env privKey = (Some es, None)"
    from GetECDSASigner_Some [OF this] show ?thesis
      by simp
  next
    assume new: "NewECDSASigner env c = (Some es, None)
                 \<and> (\<forall>k. GenerateKey env c = Inr k \<longrightarrow> Curve k = c)"
    then have "GenerateKey env c = Inr (privateKey es)" "PubKey es = PublicKeyOf (privateKey es)"
      "curveHash c = Some (hash es)"
      using NewECDSASigner_Some [of env c es None] by simp_all
    moreover from this new have "Curve (privateKey es) = c"
      by blast
    ultimately show ?thesis
      by simp
  qed
  then have curve: "Curve (PubKey es) = Curve (privateKey es)"
    by (simp add: PublicKeyOf_def)
  from signed have "signEcdsa env msg (privateKey es) (hash es) = Return (Some sig, None)"
    by (simp add: Sign_def)
  from signEcdsa_success [OF this] obtain r s where
    call: "ecdsaSign env (privateKey es) (hashSum env (hash es) msg) = Inr (r, s)" and
    lr: "length (Bytes r) \<le> ?kb" and ls: "length (Bytes s) \<le> ?kb" and
    sig: "sig = leftPad ?kb (Bytes r) @ leftPad ?kb (Bytes s)"
    by blast
  from prim call have pos: "0 \<le> r" "0 \<le> s"
    and ok: "ecdsaVerify (PubKey es) (hashSum env (hash es) msg) r s"
    by blast+
  have plr: "length (leftPad ?kb (Bytes r)) = ?kb"
    using lr by (simp add: length_leftPad)
  have dr: "SetBytes (take ?kb sig) = r"
    using plr pos by (simp add: sig SetBytes_leftPad SetBytes_Bytes)
  have ds: "SetBytes (drop ?kb sig) = s"
    using plr pos by (simp add: sig SetBytes_leftPad SetBytes_Bytes)
  have bound: "curveHash (Curve (PubKey es)) = Some (hash es)"
    using key curve by simp
  have dr': "SetBytes (take (curveByteLen (Curve (PubKey es))) sig) = r"
    and ds': "SetBytes (drop (curveByteLen (Curve (PubKey es))) sig) = s"
    using dr ds curve by simp_all
  have "Verify ecdsaVerify env (PubKey es) msg sig = None"
    using ok by (simp add: Verify_def bound dr' ds' Let_def)
  with call dr' ds' show ?thesis
    by simp
qed

lemma demo_get_P521:
  "GetECDSASigner demoEnv (demoKey P521) = (Some (demoSigner P521 SHA512 P521Alg), None)"
  by (simp add: GetECDSASigner_def GetECDSAP521Signer_def newECDSASigner_def demoEnv_def
      demoSigner_def demoKey_def PublicKeyOf_def)

lemma demo_prim:
  "\<forall>hashed r s. ecdsaSign demoEnv (privateKey (demoSigner P521 SHA512 P521Alg)) hashed = Inr (r, s)
     \<longrightarrow> 0 \<le> r \<and> 0 \<le> s \<and> demoVerify (PubKey (demoSigner P521 SHA512 P521Alg)) hashed r s"
  by (auto simp: demoEnv_def demoSigner_def demoKey_def demoVerify_def PublicKeyOf_def)

theorem C2_verify_accepts_own_signature_witness:
  "GetECDSASigner demoEnv (demoKey P521) = (Some (demoSigner P521 SHA512 P521Alg), None)
   \<and> Sign demoEnv (demoSigner P521 SHA512 P521Alg) [1, 2, 3]
       = Return (Some (replicate 65 0 @ [4] @ replicate 65 0 @ [5]), None)
   \<and> Verify demoVerify demoEnv (PubKey (demoSigner P521 SHA512 P521Alg)) [1, 2, 3]
       (replicate 65 0 @ [4] @ replicate 65 0 @ [5]) = None"
  using C2_verify_accepts_own_signature [of demoEnv "demoKey P521"
      "demoSigner P521 SHA512 P521Alg" P521 "[1, 2, 3]"
      "replicate 65 0 @ [4] @ replicate 65 0 @ [5]" demoVerify]
    demo_get_P521 demo_sign demo_prim
  by simp

text \<open>
  Claim C5. The adapter forwards verbatim. For every backend and message, \<open>Sign\<close> of
  the adapter returns the pair the backend's \<open>Sign\<close> returns, signature and error
  unchanged; for every backend, key, message and signature, \<open>Verify\<close> of the adapter
  returns what the backend's \<open>Verify\<close> returns. In the two scenarios of the tests: over
  the mock that returns "signature", \<open>Sign([]byte("msg"))\<close> returns exactly "signature"
  and no error; over the mock whose verification fails with "verify error", \<open>Verify\<close>
  returns an error whose message is exactly "verify error".
\<close>

theorem C5_adapter_forwards_verbatim:
  "CryptoSigner_Sign (NewCryptoWrapperSigner backend) msg = backendSign backend msg
   \<and> CryptoVerifier_Verify (NewCryptoVerifier backend) pubKey msg sig
       = backendVerify backend pubKey msg sig
   \<and> CryptoSigner_Sign (NewCryptoWrapperSigner (MockFixedKeyCrypto (bytesOfString ''signature'')))
         (bytesOfString ''msg'')
       = (Some (bytesOfString ''signature''), None)
   \<and> map_option errorString
         (CryptoVerifier_Verify (NewCryptoVerifier (MockKMSCrypto (Some (Error ''verify error''))))
            pubKey (bytesOfString ''msg'') (bytesOfString ''signature''))
       = Some ''verify error''"
  by (simp add: NewCryptoWrapperSigner_def NewCryptoVerifier_def MockFixedKeyCrypto_def
      MockKMSCrypto_def)

section \<open>Facts about the proof manager\<close>

lemma splitOn_no_sep: "sep \<notin> set s \<Longrightarrow> splitOn sep s = [s]"
  by (induction s) auto

lemma splitOn_at_sep: "sep \<notin> set a \<Longrightarrow> splitOn sep (a @ sep # b) = a # splitOn sep b"
  by (induction a) auto

lemma parseVerificationMethod_wellformed:
  assumes "CHR ''#'' \<notin> set issuer" "CHR ''#'' \<notin> set frag"
  shows "parseVerificationMethod (issuer @ ''#'' @ frag) = Some (issuer, frag)"
  using assms by (simp add: parseVerificationMethod_def splitOn_at_sep splitOn_no_sep)

lemma resolveKey_wellformed:
  assumes "vm = issuer @ ''#'' @ frag" "CHR ''#'' \<notin> set issuer" "CHR ''#'' \<notin> set frag"
  shows "resolveKey fetcher vm = fetcher issuer (''#'' @ frag)"
  using parseVerificationMethod_wellformed [OF assms(2,3)] assms(1)
  by (simp add: resolveKey_def)

lemma verifyProof_fetcher_answer:
  assumes "verificationMethod (proofs doc ! i) = issuer @ ''#'' @ frag"
    and "CHR ''#'' \<notin> set issuer" "CHR ''#'' \<notin> set frag"
  shows "verifyProof canonicalize fetcher verifierFor doc i
           = verifyProof canonicalize (\<lambda>issuerID keyID. fetcher issuer (''#'' @ frag))
               verifierFor doc i"
proof -
  have a: "resolveKey fetcher (verificationMethod (proofs doc ! i))
             = fetcher issuer (''#'' @ frag)"
    by (rule resolveKey_wellformed [OF assms])
  have b: "resolveKey (\<lambda>issuerID keyID. fetcher issuer (''#'' @ frag))
             (verificationMethod (proofs doc ! i)) = fetcher issuer (''#'' @ frag)"
    by (rule resolveKey_wellformed [OF assms])
  show ?thesis
    unfolding verifyProof_def Let_def a b by (rule refl)
qed

lemma verifyFrom_Return_iff:
  "verifyFrom canonicalize fetcher verifierFor doc ixs = Return rs
     \<longleftrightarrow> length rs = length ixs
         \<and> (\<forall>k < length ixs. verifyProof canonicalize fetcher verifierFor doc (ixs ! k)
                                = Return (rs ! k))"
proof (induction ixs arbitrary: rs)
  case Nil
  then show ?case by auto
next
  case (Cons i ixs)
  show ?case
  proof (cases rs)
    case Nil
    then show ?thesis
      by (auto split: outcome.splits)
  next
    case (Cons r rest)
    have "verifyFrom canonicalize fetcher verifierFor doc (i # ixs) = Return (r # rest)
            \<longleftrightarrow> verifyProof canonicalize fetcher verifierFor doc i = Return r
                \<and> verifyFrom canonicalize fetcher verifierFor doc ixs = Return rest"
      by (auto split: outcome.splits)
    also have "\<dots> \<longleftrightarrow> verifyProof canonicalize fetcher verifierFor doc i = Return r
                \<and> length rest = length ixs
                \<and> (\<forall>k < length ixs. verifyProof canonicalize fetcher verifierFor doc (ixs ! k)
                                       = Return (rest ! k))"
      by (simp add: Cons.IH)
    also have "\<dots> \<longleftrightarrow> length (r # rest) = length (i # ixs)
                \<and> (\<forall>k < length (i # ixs).
                      verifyProof canonicalize fetcher verifierFor doc ((i # ixs) ! k)
                        = Return ((r # rest) ! k))"
      by (auto simp: nth_Cons split: nat.splits)
    finally show ?thesis
      using Cons by simp
  qed
qed

lemma VerifyProofs_Return_iff:
  "VerifyProofs canonicalize fetcher verifierFor doc = Return rs
     \<longleftrightarrow> length rs = length (proofs doc)
         \<and> (\<forall>i < length (proofs doc). verifyProof canonicalize fetcher verifierFor doc i
                                         = Return (rs ! i))"
  by (simp add: VerifyProofs_def verifyFrom_Return_iff)

lemma verifyFrom_returns:
  "(\<And>i. i \<in> set ixs \<Longrightarrow> \<exists>r. verifyProof canonicalize fetcher verifierFor doc i = Return r)
    \<Longrightarrow> \<exists>rs. verifyFrom canonicalize fetcher verifierFor doc ixs = Return rs"
  by (induction ixs) (fastforce split: outcome.splits)+

lemma VerifyProofs_returns:
  assumes "\<And>i. i < length (proofs doc)
             \<Longrightarrow> \<exists>r. verifyProof canonicalize fetcher verifierFor doc i = Return r"
  shows "\<exists>rs. VerifyProofs canonicalize fetcher verifierFor doc = Return rs"
  unfolding VerifyProofs_def using assms by (intro verifyFrom_returns) simp

lemma verifyProof_resolver_error:
  assumes "verificationMethod (proofs doc ! i) = issuer @ ''#'' @ frag"
    and "CHR ''#'' \<notin> set issuer" "CHR ''#'' \<notin> set frag"
    and "fetcher issuer (''#'' @ frag) = Return (k, Some err)"
  shows "verifyProof canonicalize fetcher verifierFor doc i = Return KeyResolutionFailure"
proof -
  have "resolveKey fetcher (verificationMethod (proofs doc ! i))
          = fetcher issuer (''#'' @ frag)"
    by (rule resolveKey_wellformed [OF assms(1-3)])
  with assms(4) have "resolveKey fetcher (verificationMethod (proofs doc ! i))
                        = Return (k, Some err)"
    by simp
  then show ?thesis
    by (simp add: verifyProof_def Let_def split: option.splits)
qed


















text \<open>
  Claim C7. For every proof of the document whose verification method is
  \<open>issuerIdentity + "#" + keyFragment\<close>, verification splits the identifier at the
  \<open>#\<close> into exactly these two parts and resolves the key by the call
  \<open>fetcher(issuerIdentity, "#"+keyFragment)\<close>: the outcome of the resolution is the
  outcome of that call, the verification of the proof reads nothing else of the fetcher,
  and the per-proof result that \<open>VerifyProofs\<close> reports is the one computed from that
  call. For the verification method "did:123#key1" of the fixture, a fetcher receives
  the issuer "did:123" and the key identifier "#key1", and the fixture's fetcher answers
  with the key of the first signer.
\<close>

theorem C7_fetcher_call_arguments:
  assumes "i < length (proofs doc)"
      and "verificationMethod (proofs doc ! i) = issuer @ ''#'' @ frag"
      and "CHR ''#'' \<notin> set issuer" and "CHR ''#'' \<notin> set frag"
  shows "parseVerificationMethod (verificationMethod (proofs doc ! i)) = Some (issuer, frag)
       \<and> resolveKey fetcher (verificationMethod (proofs doc ! i)) = fetcher issuer (''#'' @ frag)
       \<and> verifyProof canonicalize fetcher verifierFor doc i
           = verifyProof canonicalize (\<lambda>issuerID keyID. fetcher issuer (''#'' @ frag))
               verifierFor doc i
       \<and> (VerifyProofs canonicalize fetcher verifierFor doc = Return rs
            \<longrightarrow> verifyProof canonicalize (\<lambda>issuerID keyID. fetcher issuer (''#'' @ frag))
                   verifierFor doc i = Return (rs ! i))
       \<and> resolveKey (\<lambda>issuerID keyID. Return (Some (issuerID, keyID), None)) ''did:123#key1''
           = Return (Some (''did:123'', ''#key1''), None)
       \<and> resolveKey (twoProofsFetcher jwk1 jwk2) ''did:123#key1''
           = Return (Some \<lparr>Type = ''Ed25519Signature2018'', Value = [], JWK = Some jwk1\<rparr>, None)"
proof -
  have parse: "parseVerificationMethod (verificationMethod (proofs doc ! i)) = Some (issuer, frag)"
    using parseVerificationMethod_wellformed [OF assms(3,4)] assms(2) by simp
  have res: "resolveKey fetcher (verificationMethod (proofs doc ! i)) = fetcher issuer (''#'' @ frag)"
    by (rule resolveKey_wellformed [OF assms(2-4)])
  have only: "verifyProof canonicalize fetcher verifierFor doc i
           = verifyProof canonicalize (\<lambda>issuerID keyID. fetcher issuer (''#'' @ frag))
               verifierFor doc i"
    by (rule verifyProof_fetcher_answer [OF assms(2-4)])
  have list: "VerifyProofs canonicalize fetcher verifierFor doc = Return rs
            \<longrightarrow> verifyProof canonicalize (\<lambda>issuerID keyID. fetcher issuer (''#'' @ frag))
                   verifierFor doc i = Return (rs ! i)"
  proof
    assume "VerifyProofs canonicalize fetcher verifierFor doc = Return rs"
    with assms(1) have "verifyProof canonicalize fetcher verifierFor doc i = Return (rs ! i)"
      by (simp add: VerifyProofs_Return_iff)
    with only show "verifyProof canonicalize (\<lambda>issuerID keyID. fetcher issuer (''#'' @ frag))
                   verifierFor doc i = Return (rs ! i)"
      by simp
  qed
  have rec: "resolveKey (\<lambda>issuerID keyID. Return (Some (issuerID, keyID), None)) ''did:123#key1''
           = Return (Some (''did:123'', ''#key1''), None)"
    by (simp add: resolveKey_def parseVerificationMethod_def)
  have fixture: "resolveKey (twoProofsFetcher jwk1 jwk2) ''did:123#key1''
           = Return (Some \<lparr>Type = ''Ed25519Signature2018'', Value = [], JWK = Some jwk1\<rparr>, None)"
    by (simp add: resolveKey_def parseVerificationMethod_def twoProofsFetcher_def)
  from parse res only list rec fixture show ?thesis
    by blast
qed

theorem C7_fetcher_call_arguments_witness:
  "(1::nat) < length (proofs (demoDoc [demoProof ''did:123#key1'' [], demoProof ''did:123#key2'' []]))
   \<and> verificationMethod (proofs (demoDoc [demoProof ''did:123#key1'' [],
                                           demoProof ''did:123#key2'' []]) ! 1)
       = ''did:123'' @ ''#'' @ ''key2''
   \<and> CHR ''#'' \<notin> set ''did:123'' \<and> CHR ''#'' \<notin> set ''key2''
   \<and> resolveKey (\<lambda>issuerID keyID. Return (Some (issuerID, keyID), None))
        (verificationMethod (proofs (demoDoc [demoProof ''did:123#key1'' [],
                                              demoProof ''did:123#key2'' []]) ! 1))
       = Return (Some (''did:123'', ''#key2''), None)"
proof -
  let ?doc = "demoDoc [demoProof ''did:123#key1'' [], demoProof ''did:123#key2'' []]"
  have h1: "(1::nat) < length (proofs ?doc)"
    by (simp add: demoDoc_def)
  have h2: "verificationMethod (proofs ?doc ! 1) = ''did:123'' @ ''#'' @ ''key2''"
    by (simp add: demoDoc_def demoProof_def)
  have h3: "CHR ''#'' \<notin> set ''did:123''" and h4: "CHR ''#'' \<notin> set ''key2''"
    by simp_all
  from C7_fetcher_call_arguments [OF h1 h2 h3 h4,
      of "\<lambda>issuerID keyID. Return (Some (issuerID, keyID), None)" demoCanon
        "\<lambda>sigType pubKey message sig. None" "[]" "1::nat" "2::nat"]
  have "resolveKey (\<lambda>issuerID keyID. Return (Some (issuerID, keyID), None))
          (verificationMethod (proofs ?doc ! 1)) = Return (Some (''did:123'', ''#key2''), None)"
    by simp
  with h1 h2 h3 h4 show ?thesis
    by blast
qed

text \<open>
  Claim C8, as stated, fails on the fixture: its Public-Key Resolver answers the unknown
  key identifier "#key3" with a panic, not with an error value.
\<close>

theorem C8_fixture_resolver_panics:
  "twoProofsFetcher (1::nat) 2 ''did:123'' ''#key3'' = Panic ''invalid keyID''"
  by (simp add: twoProofsFetcher_def)

lemma resolveKey_returns:
  assumes "\<forall>issuerID keyID. \<exists>res. fetcher issuerID keyID = Return res"
  shows "\<exists>res. resolveKey fetcher vm = Return res"
  using assms by (auto simp: resolveKey_def split: option.splits)

lemma verifyProof_returns:
  assumes "resolveKey fetcher (verificationMethod (proofs doc ! i)) = Return res"
  shows "\<exists>r. verifyProof canonicalize fetcher verifierFor doc i = Return r"
  using assms
  by (cases res) (auto simp: verifyProof_def Let_def split: option.splits sum.splits)

lemma verifyProof_resolution_error:
  assumes "resolveKey fetcher (verificationMethod (proofs doc ! i)) = Return (k, Some err)"
  shows "verifyProof canonicalize fetcher verifierFor doc i = Return KeyResolutionFailure"
  using assms by (simp add: verifyProof_def Let_def split: option.splits)

lemma verifyProof_same_resolution:
  assumes "resolveKey fetcher' (verificationMethod (proofs doc ! j))
             = resolveKey fetcher (verificationMethod (proofs doc ! j))"
  shows "verifyProof canonicalize fetcher' verifierFor doc j
           = verifyProof canonicalize fetcher verifierFor doc j"
  unfolding verifyProof_def Let_def assms by (rule refl)

lemma VerifyProofs_total:
  assumes "\<forall>issuerID keyID. \<exists>res. fetcher issuerID keyID = Return res"
  shows "\<exists>rs. VerifyProofs canonicalize fetcher verifierFor doc = Return rs
           \<and> length rs = length (proofs doc)
           \<and> (\<forall>i < length (proofs doc).
                 verifyProof canonicalize fetcher verifierFor doc i = Return (rs ! i))
           \<and> (\<forall>i < length (proofs doc).
                 (\<exists>k err. resolveKey fetcher (verificationMethod (proofs doc ! i))
                             = Return (k, Some err))
                 \<longrightarrow> rs ! i = KeyResolutionFailure)"
proof -
  have each: "\<exists>r. verifyProof canonicalize fetcher verifierFor doc i = Return r" for i
    using resolveKey_returns [OF assms] verifyProof_returns by blast
  then obtain rs where run: "VerifyProofs canonicalize fetcher verifierFor doc = Return rs"
    using VerifyProofs_returns [of doc canonicalize fetcher verifierFor] by blast
  then have len: "length rs = length (proofs doc)"
    and res: "\<forall>i < length (proofs doc).
                 verifyProof canonicalize fetcher verifierFor doc i = Return (rs ! i)"
    by (simp_all add: VerifyProofs_Return_iff)
  have "\<forall>i < length (proofs doc).
                 (\<exists>k err. resolveKey fetcher (verificationMethod (proofs doc ! i))
                             = Return (k, Some err))
                 \<longrightarrow> rs ! i = KeyResolutionFailure"
  proof (intro allI impI)
    fix i
    assume i: "i < length (proofs doc)"
      and "\<exists>k err. resolveKey fetcher (verificationMethod (proofs doc ! i))
                             = Return (k, Some err)"
    then obtain k err where
      "resolveKey fetcher (verificationMethod (proofs doc ! i)) = Return (k, Some err)"
      by blast
    then have "verifyProof canonicalize fetcher verifierFor doc i = Return KeyResolutionFailure"
      by (rule verifyProof_resolution_error)
    with res i show "rs ! i = KeyResolutionFailure"
      by simp
  qed
  with run len res show ?thesis
    by blast
qed

text \<open>
  Claim C8, amended. A failure that the Public-Key Resolver returns as an error, also for
  an unknown key identifier, is a recoverable key-resolution failure of that proof alone.
  With a resolver that always returns (a key or an error), \<open>VerifyProofs\<close> does not crash:
  it returns one result per proof, each the result of verifying that proof, and the
  result is \<open>KeyResolutionFailure\<close> for every proof whose resolution returned an error.
  The result of any other proof does not depend on what the resolver answers for the
  failing one: two resolvers that answer alike for a proof give it the same result. The
  resolver of the reference fixture is the exception: it returns the first signer's key
  for "#key1" and the second signer's key for "#key2", and for every other key identifier
  it panics with "invalid keyID" instead of returning an error.
\<close>

theorem C8_resolver_error_fails_only_that_proof:
  "((\<forall>issuerID keyID. \<exists>res. fetcher issuerID keyID = Return res)
      \<longrightarrow> (\<exists>rs. VerifyProofs canonicalize fetcher verifierFor doc = Return rs
             \<and> length rs = length (proofs doc)
             \<and> (\<forall>i < length (proofs doc).
                   verifyProof canonicalize fetcher verifierFor doc i = Return (rs ! i))
             \<and> (\<forall>i < length (proofs doc).
                   (\<exists>k err. resolveKey fetcher (verificationMethod (proofs doc ! i))
                               = Return (k, Some err))
                   \<longrightarrow> rs ! i = KeyResolutionFailure)))
   \<and> (verificationMethod (proofs doc ! i) = issuer @ ''#'' @ frag
        \<and> CHR ''#'' \<notin> set issuer \<and> CHR ''#'' \<notin> set frag
        \<and> fetcher issuer (''#'' @ frag) = Return (k, Some err)
      \<longrightarrow> verifyProof canonicalize fetcher verifierFor doc i = Return KeyResolutionFailure)
   \<and> (resolveKey fetcher' (verificationMethod (proofs doc ! j))
          = resolveKey fetcher (verificationMethod (proofs doc ! j))
      \<longrightarrow> verifyProof canonicalize fetcher' verifierFor doc j
          = verifyProof canonicalize fetcher verifierFor doc j)
   \<and> twoProofsFetcher jwk1 jwk2 issuerID ''#key1''
     = Return (Some \<lparr>Type = ''Ed25519Signature2018'', Value = [], JWK = Some jwk1\<rparr>, None)
   \<and> twoProofsFetcher jwk1 jwk2 issuerID ''#key2''
     = Return (Some \<lparr>Type = ''Ed25519Signature2018'', Value = [], JWK = Some jwk2\<rparr>, None)
   \<and> (keyID \<noteq> ''#key1'' \<and> keyID \<noteq> ''#key2''
        \<longrightarrow> twoProofsFetcher jwk1 jwk2 issuerID keyID = Panic ''invalid keyID'')
   \<and> (\<forall>pk perr. twoProofsFetcher jwk1 jwk2 issuerID keyID \<noteq> Return (pk, Some perr))"
proof -
  have total: "(\<forall>issuerID keyID. \<exists>res. fetcher issuerID keyID = Return res)
      \<longrightarrow> (\<exists>rs. VerifyProofs canonicalize fetcher verifierFor doc = Return rs
             \<and> length rs = length (proofs doc)
             \<and> (\<forall>i < length (proofs doc).
                   verifyProof canonicalize fetcher verifierFor doc i = Return (rs ! i))
             \<and> (\<forall>i < length (proofs doc).
                   (\<exists>k err. resolveKey fetcher (verificationMethod (proofs doc ! i))
                               = Return (k, Some err))
                   \<longrightarrow> rs ! i = KeyResolutionFailure))"
    using VerifyProofs_total by blast
  have one: "verificationMethod (proofs doc ! i) = issuer @ ''#'' @ frag
        \<and> CHR ''#'' \<notin> set issuer \<and> CHR ''#'' \<notin> set frag
        \<and> fetcher issuer (''#'' @ frag) = Return (k, Some err)
      \<longrightarrow> verifyProof canonicalize fetcher verifierFor doc i = Return KeyResolutionFailure"
    using verifyProof_resolver_error by blast
  have others: "resolveKey fetcher' (verificationMethod (proofs doc ! j))
          = resolveKey fetcher (verificationMethod (proofs doc ! j))
      \<longrightarrow> verifyProof canonicalize fetcher' verifierFor doc j
          = verifyProof canonicalize fetcher verifierFor doc j"
    using verifyProof_same_resolution by blast
  have f1: "twoProofsFetcher jwk1 jwk2 issuerID ''#key1''
     = Return (Some \<lparr>Type = ''Ed25519Signature2018'', Value = [], JWK = Some jwk1\<rparr>, None)"
    and f2: "twoProofsFetcher jwk1 jwk2 issuerID ''#key2''
     = Return (Some \<lparr>Type = ''Ed25519Signature2018'', Value = [], JWK = Some jwk2\<rparr>, None)"
    and f3: "keyID \<noteq> ''#key1'' \<and> keyID \<noteq> ''#key2''
        \<longrightarrow> twoProofsFetcher jwk1 jwk2 issuerID keyID = Panic ''invalid keyID''"
    and f4: "\<forall>pk perr. twoProofsFetcher jwk1 jwk2 issuerID keyID \<noteq> Return (pk, Some perr)"
    by (simp_all add: twoProofsFetcher_def)
  show ?thesis
    by (intro conjI) (fact total one others f1 f2 f3 f4)+
qed

theorem C8_resolver_error_fails_only_that_proof_witness:
  "(\<forall>issuerID keyID. \<exists>res. demoFetcher issuerID keyID = Return res)
   \<and> demoFetcher ''did:123'' (''#'' @ ''key3'') = Return (None, Some (Error ''unknown key''))
   \<and> verifyProof demoCanon demoFetcher demoVerifier
        (demoDoc [demoProof ''did:123#key1'' (1 # bytesOfString ''vc''),
                    demoProof ''did:123#key3'' (3 # bytesOfString ''vc''),
                    demoProof ''did:123#key2'' (2 # bytesOfString ''vc'')]) 1
       = Return KeyResolutionFailure
   \<and> VerifyProofs demoCanon demoFetcher demoVerifier
        (demoDoc [demoProof ''did:123#key1'' (1 # bytesOfString ''vc''),
                    demoProof ''did:123#key3'' (3 # bytesOfString ''vc''),
                    demoProof ''did:123#key2'' (2 # bytesOfString ''vc'')])
       = Return [ProofValid, KeyResolutionFailure, ProofValid]
   \<and> ''key9'' \<noteq> ''#key1'' \<and> ''key9'' \<noteq> ''#key2''
   \<and> twoProofsFetcher (1::nat) 2 ''did:example:issuer'' ''key9'' = Panic ''invalid keyID''"
proof -
  let ?doc = "(demoDoc [demoProof ''did:123#key1'' (1 # bytesOfString ''vc''),
                    demoProof ''did:123#key3'' (3 # bytesOfString ''vc''),
                    demoProof ''did:123#key2'' (2 # bytesOfString ''vc'')])"
  note inst = C8_resolver_error_fails_only_that_proof [of demoFetcher demoCanon demoVerifier
      ?doc 1 "''did:123''" "''key3''" None "Error ''unknown key''" demoFetcher 0
      "1::nat" "2::nat" "''did:example:issuer''" "''key9''"]
  have np: "\<forall>issuerID keyID. \<exists>res. demoFetcher issuerID keyID = Return res"
    by (simp add: demoFetcher_def)
  have unknown: "demoFetcher ''did:123'' (''#'' @ ''key3'') = Return (None, Some (Error ''unknown key''))"
    by (simp add: demoFetcher_def)
  have vm: "verificationMethod (proofs ?doc ! 1) = ''did:123'' @ ''#'' @ ''key3''"
    by (simp add: demoDoc_def demoProof_def)
  have nohash: "CHR ''#'' \<notin> set ''did:123''" "CHR ''#'' \<notin> set ''key3''"
    by simp_all
  have v1: "verifyProof demoCanon demoFetcher demoVerifier ?doc 1 = Return KeyResolutionFailure"
    using inst by (simp only: vm nohash unknown simp_thms)
  have total: "\<exists>rs. VerifyProofs demoCanon demoFetcher demoVerifier ?doc = Return rs
             \<and> length rs = length (proofs ?doc)
             \<and> (\<forall>i < length (proofs ?doc).
                   verifyProof demoCanon demoFetcher demoVerifier ?doc i = Return (rs ! i))
             \<and> (\<forall>i < length (proofs ?doc).
                   (\<exists>k err. resolveKey demoFetcher (verificationMethod (proofs ?doc ! i))
                               = Return (k, Some err))
                   \<longrightarrow> rs ! i = KeyResolutionFailure)"
    using inst np by (simp only: simp_thms)
  then obtain rs where run: "VerifyProofs demoCanon demoFetcher demoVerifier ?doc = Return rs"
    and len: "length rs = length (proofs ?doc)"
    and res: "\<forall>i < length (proofs ?doc).
                verifyProof demoCanon demoFetcher demoVerifier ?doc i = Return (rs ! i)"
    by blast
  have n: "length (proofs ?doc) = 3"
    by (simp add: demoDoc_def)
  have v0: "verifyProof demoCanon demoFetcher demoVerifier ?doc 0 = Return ProofValid"
    by (simp add: verifyProof_def resolveKey_def parseVerificationMethod_def demoCanon_def
        demoDoc_def demoProof_def demoFetcher_def demoVerifier_def)
  have v2: "verifyProof demoCanon demoFetcher demoVerifier ?doc 2 = Return ProofValid"
    by (simp add: verifyProof_def resolveKey_def parseVerificationMethod_def demoCanon_def
        demoDoc_def demoProof_def demoFetcher_def demoVerifier_def)
  from res n v0 v1 v2 have "rs ! 0 = ProofValid" "rs ! 1 = KeyResolutionFailure"
    "rs ! 2 = ProofValid"
    by auto
  with len n have "rs = [ProofValid, KeyResolutionFailure, ProofValid]"
    by (auto simp: list_eq_iff_nth_eq less_Suc_eq numeral_3_eq_3 numeral_2_eq_2)
  with run have all: "VerifyProofs demoCanon demoFetcher demoVerifier ?doc
       = Return [ProofValid, KeyResolutionFailure, ProofValid]"
    by simp
  have ne: "''key9'' \<noteq> ''#key1''" "''key9'' \<noteq> ''#key2''"
    by simp_all
  have panics: "twoProofsFetcher (1::nat) 2 ''did:example:issuer'' ''key9'' = Panic ''invalid keyID''"
    using inst by (simp only: ne simp_thms)
  show ?thesis
    by (intro conjI) (fact np unknown v1 all ne panics)+
qed

section \<open>Facts about the time wrapper\<close>

lemma demo_format_10000:
  "goFormatRFC3339 \<lparr>year = 10000, month = 1, day = 1, hour = 0, minute = 0, second = 0\<rparr>
     = ''10000-01-01T00:00:00Z''"
  by (simp add: goFormatRFC3339_def appendInt_def digitsOf.simps Let_def)

lemma demo_format_2026:
  "goFormatRFC3339 \<lparr>year = 2026, month = 10, day = 31, hour = 12, minute = 5, second = 9\<rparr>
     = ''2026-10-31T12:05:09Z''"
  by (simp add: goFormatRFC3339_def appendInt_def digitsOf.simps Let_def)

lemma demo_parse_10000:
  "goParseTimeWrapper ''10000-01-01T00:00:00Z''
     = (None, Some (Error ''parsing time: cannot parse as RFC3339''))"
  by (simp add: goParseTimeWrapper_def Let_def)

lemma demo_parse_2026:
  "goParseTimeWrapper ''2026-10-31T12:05:09Z''
     = (Some (\<lparr>year = 2026, month = 10, day = 31, hour = 12, minute = 5, second = 9\<rparr>,
              ''2026-10-31T12:05:09Z''), None)"
  by (simp add: goParseTimeWrapper_def Let_def isDigit_def atoi_def)

lemma GetECDSASigner_jwk_error:
  "Curve privKey \<in> {P256, P384, P521, S256} \<Longrightarrow> JWKFromKey env (PublicKeyOf privKey) = Inl err
    \<Longrightarrow> GetECDSASigner env privKey = (None, Some err)"
  by (auto simp: GetECDSASigner_def Get_defs newECDSASigner_def)

text \<open>
  Claim C9, as stated, fails on \<open>wrapTime\<close>: for a time in the year 10000 the RFC3339
  string has a five-digit year, the reparse fails with an error, and \<open>wrapTime\<close> returns
  the nil wrapper; its result has no place for the error.
\<close>

theorem C9_wrapTime_swallows_parse_error:
  "goParseTimeWrapper
       (goFormatRFC3339 \<lparr>year = 10000, month = 1, day = 1, hour = 0, minute = 0, second = 0\<rparr>)
     = (None, Some (Error ''parsing time: cannot parse as RFC3339''))
   \<and> wrapTime goFormatRFC3339 goParseTimeWrapper
       \<lparr>year = 10000, month = 1, day = 1, hour = 0, minute = 0, second = 0\<rparr> = None"
  unfolding wrapTime_def demo_format_10000 demo_parse_10000 by simp

text \<open>
  Claim C9, amended. In the ECDSA signer every failure of a library call surfaces to the
  caller as an explicit error with no object: a key-generation error from
  \<open>NewECDSASigner\<close>, a JWK-export error from \<open>GetECDSASigner\<close>, a signing error from
  \<open>Sign\<close>, each returned unchanged. The interop conversion \<open>wrapTime\<close> formats the time
  as RFC3339, reparses it and returns the first component of the parser's result, whatever
  the second is: when the parse fails the error is discarded and the caller receives the
  nil wrapper.
\<close>

theorem C9_errors_surface_except_wrapTime:
  "(ParseTimeWrapper (formatRFC3339 t) = (tw, perr)
      \<longrightarrow> wrapTime formatRFC3339 ParseTimeWrapper t = tw)
   \<and> (c \<in> {P256, P384, P521, S256} \<and> GenerateKey env c = Inl err
      \<longrightarrow> NewECDSASigner env c = (None, Some err))
   \<and> (Curve privKey \<in> {P256, P384, P521, S256}
        \<and> JWKFromKey env (PublicKeyOf privKey) = Inl err
      \<longrightarrow> GetECDSASigner env privKey = (None, Some err))
   \<and> (ecdsaSign env (privateKey es) (hashSum env (hash es) msg) = Inl err
      \<longrightarrow> Sign env es msg = Return (None, Some err))"
proof -
  have "ParseTimeWrapper (formatRFC3339 t) = (tw, perr)
      \<longrightarrow> wrapTime formatRFC3339 ParseTimeWrapper t = tw"
    by (simp add: wrapTime_def)
  moreover have "c \<in> {P256, P384, P521, S256} \<and> GenerateKey env c = Inl err
      \<longrightarrow> NewECDSASigner env c = (None, Some err)"
    using NewECDSASigner_keygen_error by blast
  moreover have "Curve privKey \<in> {P256, P384, P521, S256}
        \<and> JWKFromKey env (PublicKeyOf privKey) = Inl err
      \<longrightarrow> GetECDSASigner env privKey = (None, Some err)"
    using GetECDSASigner_jwk_error by blast
  moreover have "ecdsaSign env (privateKey es) (hashSum env (hash es) msg) = Inl err
      \<longrightarrow> Sign env es msg = Return (None, Some err)"
    by (simp add: Sign_def signEcdsa_error)
  ultimately show ?thesis
    by blast
qed

theorem C9_errors_surface_except_wrapTime_witness:
  "goParseTimeWrapper
       (goFormatRFC3339 \<lparr>year = 2026, month = 10, day = 31, hour = 12, minute = 5, second = 9\<rparr>)
     = (Some (\<lparr>year = 2026, month = 10, day = 31, hour = 12, minute = 5, second = 9\<rparr>,
              ''2026-10-31T12:05:09Z''), None)
   \<and> wrapTime goFormatRFC3339 goParseTimeWrapper
       \<lparr>year = 2026, month = 10, day = 31, hour = 12, minute = 5, second = 9\<rparr>
     = Some (\<lparr>year = 2026, month = 10, day = 31, hour = 12, minute = 5, second = 9\<rparr>,
             ''2026-10-31T12:05:09Z'')
   \<and> GenerateKey failingEnv P256 = Inl (Error ''entropy'')
   \<and> NewECDSASigner failingEnv P256 = (None, Some (Error ''entropy''))
   \<and> JWKFromKey failingEnv (PublicKeyOf (demoKey S256)) = Inl (Error ''jwk'')
   \<and> GetECDSASigner failingEnv (demoKey S256) = (None, Some (Error ''jwk''))"
proof -
  let ?t = "\<lparr>year = 2026, month = 10, day = 31, hour = 12, minute = 5, second = 9\<rparr>"
  have parsed: "goParseTimeWrapper (goFormatRFC3339 ?t) = (Some (?t, ''2026-10-31T12:05:09Z''), None)"
    by (simp only: demo_format_2026 demo_parse_2026)
  have gen: "GenerateKey failingEnv P256 = Inl (Error ''entropy'')"
    by (simp add: failingEnv_def)
  have jwk: "JWKFromKey failingEnv (PublicKeyOf (demoKey S256)) = Inl (Error ''jwk'')"
    by (simp add: failingEnv_def)
  have curve: "Curve (demoKey S256) \<in> {P256, P384, P521, S256}"
    by (simp add: demoKey_def)
  have "wrapTime goFormatRFC3339 goParseTimeWrapper ?t = Some (?t, ''2026-10-31T12:05:09Z'')"
    using C9_errors_surface_except_wrapTime [of goParseTimeWrapper goFormatRFC3339 ?t
        "Some (?t, ''2026-10-31T12:05:09Z'')" None P256 failingEnv "Error ''entropy''"
        "demoKey P256" "demoSigner P256 SHA256 P256Alg" "[]"] parsed
    by blast
  moreover have "NewECDSASigner failingEnv P256 = (None, Some (Error ''entropy''))"
    using C9_errors_surface_except_wrapTime [of goParseTimeWrapper goFormatRFC3339 ?t
        "Some (?t, ''2026-10-31T12:05:09Z'')" None P256 failingEnv "Error ''entropy''"
        "demoKey P256" "demoSigner P256 SHA256 P256Alg" "[]"] gen
    by blast
  moreover have "GetECDSASigner failingEnv (demoKey S256) = (None, Some (Error ''jwk''))"
    using C9_errors_surface_except_wrapTime [of goParseTimeWrapper goFormatRFC3339 ?t
        "Some (?t, ''2026-10-31T12:05:09Z'')" None S256 failingEnv "Error ''jwk''"
        "demoKey S256" "demoSigner P256 SHA256 P256Alg" "[]"] jwk curve
    by blast
  ultimately show ?thesis
    using parsed gen jwk by blast
qed

end
